theory Spec2Isabelle
  imports Complex_Main "HOL-Library.Word" "HOL-Library.Sublist"
begin

text \<open>
  hermes v0.4.0 (\<open>src/extension.ts\<close>): the handler that the extension registers with
  \<open>watcher.onDidCreate\<close> for the \<open>.msg\<close> files of the inbox, with the helpers it
  calls, as functions on an explicit world of files and a trace of the attempts at the file
  system and at the host.
\<close>

section \<open>Strings of the program\<close>

text \<open>
  A JavaScript string is a sequence of 16-bit code units. The literals of the program
  are written with \<open>S\<close>, which injects an ASCII literal; the only non-ASCII character
  of the program's own texts is the em dash U+2014.
\<close>

type_synonym jschar = "16 word"
type_synonym jsstring = "jschar list"
type_synonym path = jsstring

definition S :: "string \<Rightarrow> jsstring" where
  "S s = map (\<lambda>c. word_of_nat (of_char c)) s"

definition BAR :: jschar where
  "BAR = 0x7C"

definition EM_DASH :: jsstring where
  "EM_DASH = [0x2014]"

text \<open>
  \<open>String.prototype.trim\<close> strips the code units of ECMAScript's WhiteSpace and
  LineTerminator productions from both ends; the regular-expression class \<open>\s\<close> is the
  same set.
\<close>

definition is_line_terminator :: "jschar \<Rightarrow> bool" where
  "is_line_terminator c = (c = 0x0A \<or> c = 0x0D \<or> c = 0x2028 \<or> c = 0x2029)"

definition is_space :: "jschar \<Rightarrow> bool" where
  "is_space c = (c = 0x09 \<or> c = 0x0B \<or> c = 0x0C \<or> c = 0x20 \<or> c = 0xA0 \<or> c = 0x1680
     \<or> (0x2000 \<le> c \<and> c \<le> 0x200A) \<or> c = 0x202F \<or> c = 0x205F \<or> c = 0x3000
     \<or> c = 0xFEFF \<or> is_line_terminator c)"

definition trim :: "jsstring \<Rightarrow> jsstring" where
  "trim s = rev (dropWhile is_space (rev (dropWhile is_space s)))"

text \<open>
  \<open>s.split(sep)\<close> for a one-unit separator: the empty string splits into one empty
  segment, and every occurrence of the separator starts a new segment.
\<close>

fun split :: "jschar \<Rightarrow> jsstring \<Rightarrow> jsstring list" where
  "split sep [] = [[]]"
| "split sep (c # cs) =
     (if c = sep then [] # split sep cs
      else (case split sep cs of
              [] \<Rightarrow> [[c]]
            | p # ps \<Rightarrow> (c # p) # ps))"

text \<open>\<open>a.join(sep)\<close>: the elements with the separator between neighbours.\<close>

fun join :: "jschar \<Rightarrow> jsstring list \<Rightarrow> jsstring" where
  "join sep [] = []"
| "join sep [x] = x"
| "join sep (x # y # ys) = x @ sep # join sep (y # ys)"

text \<open>\<open>s.substring(0, n)\<close>: the first \<open>n\<close> code units, or all of \<open>s\<close> when it is shorter.\<close>

definition substring0 :: "jsstring \<Rightarrow> nat \<Rightarrow> jsstring" where
  "substring0 s n = take n s"

text \<open>Decimal digits of a natural number, as a template literal prints an array length.\<close>

function nat_toString :: "nat \<Rightarrow> jsstring" where
  "nat_toString n =
     (if n < 10 then [word_of_nat (48 + n)]
      else nat_toString (n div 10) @ [word_of_nat (48 + n mod 10)])"
  by pat_completeness auto
termination
  by (relation "measure id") auto

declare nat_toString.simps [simp del]

section \<open>Numbers\<close>

text \<open>
  The numbers that \<open>parseFloat\<close> can return for a run of digits and dots: \<open>NaN\<close>,
  \<open>Infinity\<close>, or a non-negative binary64 value, kept as the rational it denotes. A
  comparison with \<open>NaN\<close> is false.
\<close>

datatype number = NaN | Infinity | Num rat

definition num_gt :: "number \<Rightarrow> rat \<Rightarrow> bool" where
  "num_gt x k = (case x of NaN \<Rightarrow> False | Infinity \<Rightarrow> True | Num r \<Rightarrow> k < r)"

section \<open>The world of one handler run\<close>

text \<open>
  A thrown value is kept as far as the handler looks at it, in
  \<open>`Exception: ${error?.message ?? String(error)}`\<close>. Reading \<open>error?.message\<close> and
  printing it in the template gives nothing (the value or its message is nullish), a text,
  or throws in its turn (a getter that throws, a message that is a symbol); \<open>String(error)\<close>
  gives a text or throws (a value with no usable \<open>toString\<close>).
\<close>

datatype thrown =
  Thrown (message_of: "(thrown + jsstring) option") (string_of: "thrown + jsstring")

definition error_text :: "thrown \<Rightarrow> thrown + jsstring" where
  "error_text e = (case message_of e of Some m \<Rightarrow> m | None \<Rightarrow> string_of e)"

text \<open>
  The commands that the handler passes to \<open>vscode.commands.executeCommand\<close>:
  \<open>workbench.action.chat.open\<close> with its \<open>query\<close> and \<open>isPartialQuery\<close>,
  \<open>workbench.action.chat.cancel\<close>, \<open>...steerWithMessage\<close>, \<open>...queueMessage\<close> and
  \<open>...showContextUsage\<close>.
\<close>

datatype command =
    ChatOpen jsstring bool
  | ChatCancel
  | ChatSteerWithMessage
  | ChatQueueMessage
  | ChatShowContextUsage

text \<open>
  The trace records every attempt, in order: a write or an unlink is recorded whether
  or not it then fails. Console output is not recorded.
\<close>

datatype event =
    FsWrite path jsstring
  | FsUnlink path
  | Exec command
  | Delay nat

record world =
  files :: "path \<rightharpoonup> jsstring"
  trace :: "event list"

text \<open>An awaited host command resolves, rejects with a thrown value, or never settles.\<close>

datatype host_result = Resolves | Rejects thrown | Never

text \<open>
  What the run does not control: the host's answer to a command, the faults of the file
  system (each may depend on the world at the time of the call), the error of a system call
  (\<open>open\<close>, \<open>unlink\<close>) on a missing file, the time that
  \<open>new Date().toISOString()\<close> reads (at most once in a run), and
  the runtime's \<open>parseFloat\<close> and its printing of a number in a template literal.
  A run is taken alone: what other runs do to the inbox while this one awaits the host is
  outside the model.
\<close>

record env =
  host :: "world \<Rightarrow> command \<Rightarrow> host_result"
  read_fault :: "world \<Rightarrow> path \<Rightarrow> thrown option"
  write_fault :: "world \<Rightarrow> path \<Rightarrow> thrown option"
  unlink_fault :: "world \<Rightarrow> path \<Rightarrow> thrown option"
  enoent :: "jsstring \<Rightarrow> path \<Rightarrow> thrown"
  now :: jsstring
  parseFloat :: "jsstring \<Rightarrow> number"
  number_toString :: "number \<Rightarrow> jsstring"

datatype 'a outcome = Return 'a | Throw thrown | Pending

type_synonym 'a io = "world \<Rightarrow> 'a outcome \<times> world"

definition io_return :: "'a \<Rightarrow> 'a io" where
  "io_return a w = (Return a, w)"

definition io_bind :: "'a io \<Rightarrow> ('a \<Rightarrow> 'b io) \<Rightarrow> 'b io" where
  "io_bind m f w =
     (case m w of
        (Return a, w1) \<Rightarrow> f a w1
      | (Throw e, w1) \<Rightarrow> (Throw e, w1)
      | (Pending, w1) \<Rightarrow> (Pending, w1))"

text \<open>\<open>try { m } catch (e) { h e }\<close>: only a thrown value reaches the handler.\<close>

definition io_catch :: "'a io \<Rightarrow> (thrown \<Rightarrow> 'a io) \<Rightarrow> 'a io" where
  "io_catch m h w =
     (case m w of
        (Throw e, w1) \<Rightarrow> h e w1
      | (Return a, w1) \<Rightarrow> (Return a, w1)
      | (Pending, w1) \<Rightarrow> (Pending, w1))"

definition emit :: "event \<Rightarrow> world \<Rightarrow> world" where
  "emit e w = w\<lparr>trace := trace w @ [e]\<rparr>"

definition existsSync :: "path \<Rightarrow> bool io" where
  "existsSync p w = (Return (files w p \<noteq> None), w)"

definition readFileSync :: "env \<Rightarrow> path \<Rightarrow> jsstring io" where
  "readFileSync E p w =
     (case read_fault E w p of
        Some e \<Rightarrow> (Throw e, w)
      | None \<Rightarrow> (case files w p of
                   None \<Rightarrow> (Throw (enoent E (S ''open'') p), w)
                 | Some c \<Rightarrow> (Return c, w)))"

definition writeFileSync :: "env \<Rightarrow> path \<Rightarrow> jsstring \<Rightarrow> unit io" where
  "writeFileSync E p c w =
     (case write_fault E w p of
        Some e \<Rightarrow> (Throw e, emit (FsWrite p c) w)
      | None \<Rightarrow> (Return (), emit (FsWrite p c) (w\<lparr>files := (files w)(p \<mapsto> c)\<rparr>)))"

definition unlinkSync :: "env \<Rightarrow> path \<Rightarrow> unit io" where
  "unlinkSync E p w =
     (case unlink_fault E w p of
        Some e \<Rightarrow> (Throw e, emit (FsUnlink p) w)
      | None \<Rightarrow> (case files w p of
                   None \<Rightarrow> (Throw (enoent E (S ''unlink'') p), emit (FsUnlink p) w)
                 | Some c \<Rightarrow> (Return (), emit (FsUnlink p) (w\<lparr>files := (files w)(p := None)\<rparr>))))"

definition executeCommand :: "env \<Rightarrow> command \<Rightarrow> unit io" where
  "executeCommand E c w =
     (case host E w c of
        Resolves \<Rightarrow> (Return (), emit (Exec c) w)
      | Rejects e \<Rightarrow> (Throw e, emit (Exec c) w)
      | Never \<Rightarrow> (Pending, emit (Exec c) w))"

text \<open>\<open>_delay(ms)\<close>: a timer that always resolves.\<close>

definition delay :: "nat \<Rightarrow> unit io" where
  "delay ms w = (Return (), emit (Delay ms) w)"

section \<open>The context probe\<close>

definition is_digit :: "jschar \<Rightarrow> bool" where
  "is_digit c = (0x30 \<le> c \<and> c \<le> 0x39)"

definition DOT :: jschar where
  "DOT = 0x2E"

text \<open>
  \<open>content.match(new RegExp(`^${key}:\\s*(CLS+)`, 'm'))\<close>, returning the capture of the
  leftmost match. With the \<open>m\<close> flag \<open>^\<close> matches at the start of the text and after
  every line terminator. The class of the capture is disjoint from \<open>\s\<close> in both uses,
  so the greedy \<open>\s*\<close> takes the whole run of white space.
\<close>

definition match_at :: "(jschar \<Rightarrow> bool) \<Rightarrow> jsstring \<Rightarrow> jsstring \<Rightarrow> jsstring option" where
  "match_at cls key s =
     (if prefix (key @ S '':'') s
      then (let cap = takeWhile cls (dropWhile is_space (drop (length key + 1) s))
            in if cap = [] then None else Some cap)
      else None)"

fun regex_match :: "(jschar \<Rightarrow> bool) \<Rightarrow> jsstring \<Rightarrow> bool \<Rightarrow> jsstring \<Rightarrow> jsstring option" where
  "regex_match cls key at_line_start [] =
     (if at_line_start then match_at cls key [] else None)"
| "regex_match cls key at_line_start (c # cs) =
     (case (if at_line_start then match_at cls key (c # cs) else None) of
        Some cap \<Rightarrow> Some cap
      | None \<Rightarrow> regex_match cls key (is_line_terminator c) cs)"

definition parseNum :: "env \<Rightarrow> jsstring \<Rightarrow> jsstring \<Rightarrow> rat \<Rightarrow> number" where
  "parseNum E content key def =
     (case regex_match (\<lambda>c. is_digit c \<or> c = DOT) key True content of
        Some m1 \<Rightarrow> parseFloat E m1
      | None \<Rightarrow> Num def)"

definition parseStr :: "jsstring \<Rightarrow> jsstring \<Rightarrow> jsstring" where
  "parseStr content key =
     (case regex_match (\<lambda>c. \<not> is_space c) key True content of
        Some m1 \<Rightarrow> m1
      | None \<Rightarrow> S ''unknown'')"

record probe =
  contextPct :: number
  patch :: number
  rsc :: number
  state :: jsstring

section \<open>Paths\<close>

text \<open>
  \<open>path.dirname\<close>, \<open>path.basename\<close> with a suffix and \<open>path.join\<close> of a directory
  and a name, on the paths the watcher passes: absolute, normalised POSIX paths with no
  trailing slash.
\<close>

definition SLASH :: jschar where
  "SLASH = 0x2F"

definition dirname :: "path \<Rightarrow> path" where
  "dirname p = rev (drop 1 (dropWhile (\<lambda>c. c \<noteq> SLASH) (rev p)))"

definition basename :: "path \<Rightarrow> jsstring \<Rightarrow> jsstring" where
  "basename p ext =
     (let name = rev (takeWhile (\<lambda>c. c \<noteq> SLASH) (rev p))
      in if suffix ext name \<and> name \<noteq> ext then take (length name - length ext) name
         else name)"

definition path_join :: "path \<Rightarrow> jsstring \<Rightarrow> path" where
  "path_join dir name = dir @ SLASH # name"

definition ackFile :: "path \<Rightarrow> path" where
  "ackFile msgFile = path_join (dirname msgFile) (basename msgFile (S ''.msg'') @ S ''.ack'')"

definition errFile :: "path \<Rightarrow> path" where
  "errFile msgFile = path_join (dirname msgFile) (basename msgFile (S ''.msg'') @ S ''.err'')"

definition warnFile :: "path \<Rightarrow> path" where
  "warnFile msgFile = path_join (dirname msgFile) (basename msgFile (S ''.msg'') @ S ''.warn'')"

section \<open>The handler\<close>

text \<open>
  \<open>_readContextProbe\<close>: the probe file of the inbox, or \<open>null\<close> when it is missing or
  reading it throws.
\<close>

definition readContextProbe :: "env \<Rightarrow> path \<Rightarrow> probe option io" where
  "readContextProbe E inboxPath =
     io_catch
       (let probeFile = path_join inboxPath (S ''context.probe'') in
        io_bind (existsSync probeFile) (\<lambda>ex.
          if \<not> ex then io_return None
          else io_bind (readFileSync E probeFile) (\<lambda>content.
            io_return (Some \<lparr>contextPct = parseNum E content (S ''context_pct'') 0,
                             patch = parseNum E content (S ''patch'') 0,
                             rsc = parseNum E content (S ''rsc'') 0,
                             state = parseStr content (S ''state'')\<rparr>))))
       (\<lambda>_. io_return None)"

text \<open>
  \<open>_cleanup\<close>: write the outcome file, then unlink the message file, each in a
  \<open>try\<close> with an empty \<open>catch\<close>.
\<close>

definition cleanup :: "env \<Rightarrow> path \<Rightarrow> path \<Rightarrow> jsstring \<Rightarrow> unit io" where
  "cleanup E msgFile outFile content =
     io_bind (io_catch (writeFileSync E outFile content) (\<lambda>_. io_return ())) (\<lambda>_.
       io_catch (unlinkSync E msgFile) (\<lambda>_. io_return ()))"

definition writeWarn :: "env \<Rightarrow> path \<Rightarrow> jsstring \<Rightarrow> unit io" where
  "writeWarn E msgFile content =
     io_catch (writeFileSync E (warnFile msgFile) content) (\<lambda>_. io_return ())"

text \<open>The chain of comparisons on \<open>mode\<close>, from \<open>send\<close> to the final \<open>else\<close>.\<close>

definition dispatch :: "env \<Rightarrow> path \<Rightarrow> jsstring \<Rightarrow> jsstring \<Rightarrow> jsstring \<Rightarrow> unit io" where
  "dispatch E msgFile sessionId mode message =
     (if mode = S ''send'' then
        io_bind (executeCommand E (ChatOpen message False)) (\<lambda>_.
          cleanup E msgFile (ackFile msgFile)
            (S ''sent sessionId='' @ substring0 sessionId 8 @ S ''... at '' @ now E))
      else if mode = S ''steer'' then
        io_bind (executeCommand E (ChatOpen message True)) (\<lambda>_.
        io_bind (delay 100) (\<lambda>_.
        io_bind (executeCommand E ChatSteerWithMessage) (\<lambda>_.
          cleanup E msgFile (ackFile msgFile)
            (S ''steered (steerWithMessage) sessionId='' @ substring0 sessionId 8
               @ S ''... at '' @ now E))))
      else if mode = S ''stop-and-send'' then
        io_bind (executeCommand E ChatCancel) (\<lambda>_.
        io_bind (delay 300) (\<lambda>_.
        io_bind (executeCommand E (ChatOpen message False)) (\<lambda>_.
          cleanup E msgFile (ackFile msgFile)
            (S ''stop-and-send sessionId='' @ substring0 sessionId 8
               @ S ''... at '' @ now E))))
      else if mode = S ''queue'' then
        io_bind (executeCommand E (ChatOpen message True)) (\<lambda>_.
        io_bind (delay 100) (\<lambda>_.
        io_bind (executeCommand E ChatQueueMessage) (\<lambda>_.
          cleanup E msgFile (ackFile msgFile)
            (S ''queued (queueMessage) sessionId='' @ substring0 sessionId 8
               @ S ''... at '' @ now E))))
      else if mode = S ''compact'' then
        io_bind (executeCommand E ChatShowContextUsage) (\<lambda>_.
          cleanup E msgFile (ackFile msgFile)
            (S ''compact: opened context usage panel at '' @ now E
               @ S ''. No direct compact command in VS Code '' @ EM_DASH
               @ S '' press compact in the panel.''))
      else
        cleanup E msgFile (errFile msgFile)
          (S ''Unknown mode=\"'' @ mode @ S ''\" '' @ EM_DASH
             @ S '' supported modes: send, steer, stop-and-send, queue, compact''))"

text \<open>The body of the handler's \<open>try\<close>; an early \<open>return\<close> is the branch that ends.\<close>

definition try_body :: "env \<Rightarrow> path \<Rightarrow> path \<Rightarrow> unit io" where
  "try_body E inboxPath msgFile =
     io_bind (readFileSync E msgFile) (\<lambda>content.
       let raw = trim content;
           parts = split BAR raw
       in if length parts < 3 then
            cleanup E msgFile (errFile msgFile)
              (S ''Invalid format '' @ EM_DASH
                 @ S '' expected \"sessionId|mode|message\", got ''
                 @ nat_toString (length parts) @ S '' segment(s)'')
          else
            let sessionId = parts ! 0;
                mode = parts ! 1;
                messageParts = drop 2 parts;
                message = join BAR messageParts
            in if sessionId = [] \<or> mode = [] \<or> message = [] then
                 cleanup E msgFile (errFile msgFile)
                   (S ''Empty field '' @ EM_DASH @ S '' sessionId=\"'' @ sessionId
                      @ S ''\" mode=\"'' @ mode @ S ''\" message=\"'' @ message @ S ''\"'')
               else
                 io_bind (readContextProbe E inboxPath) (\<lambda>probe.
                   case probe of
                     None \<Rightarrow> dispatch E msgFile sessionId mode message
                   | Some p \<Rightarrow>
                       if num_gt (contextPct p) 95 \<and> mode = S ''steer'' then
                         cleanup E msgFile (errFile msgFile)
                           (S ''mode=steer blocked: context_pct=''
                              @ number_toString E (contextPct p)
                              @ S ''% > 95%. Use mode=compact first, then retry.'')
                       else
                         io_bind
                           (if num_gt (contextPct p) 80 then
                              writeWarn E msgFile
                                (S ''context warning: context_pct=''
                                   @ number_toString E (contextPct p)
                                   @ S ''% > 80% (approaching compaction zone, patch=''
                                   @ number_toString E (patch p) @ S '')'')
                            else io_return ())
                           (\<lambda>_. dispatch E msgFile sessionId mode message)))"

text \<open>
  The \<open>catch\<close> of the handler. When building the reason throws, the thrown value leaves
  the handler and \<open>_cleanup\<close> is not reached.
\<close>

definition on_error :: "env \<Rightarrow> path \<Rightarrow> thrown \<Rightarrow> unit io" where
  "on_error E msgFile error =
     (case error_text error of
        Inl e \<Rightarrow> (\<lambda>w. (Throw e, w))
      | Inr t \<Rightarrow> cleanup E msgFile (errFile msgFile) (S ''Exception: '' @ t))"

definition onDidCreate :: "env \<Rightarrow> path \<Rightarrow> path \<Rightarrow> unit io" where
  "onDidCreate E inboxPath msgFile =
     io_catch (try_body E inboxPath msgFile) (on_error E msgFile)"

section \<open>Reading a trace\<close>

text \<open>The events a run adds to the trace of the world it starts in.\<close>

definition new_events :: "world \<Rightarrow> world \<Rightarrow> event list" where
  "new_events w w1 = drop (length (trace w)) (trace w1)"

fun host_invocations :: "event list \<Rightarrow> command list" where
  "host_invocations [] = []"
| "host_invocations (Exec c # es) = c # host_invocations es"
| "host_invocations (_ # es) = host_invocations es"

text \<open>The host commands and the delays between them, in order.\<close>

fun host_steps :: "event list \<Rightarrow> event list" where
  "host_steps [] = []"
| "host_steps (Exec c # es) = Exec c # host_steps es"
| "host_steps (Delay ms # es) = Delay ms # host_steps es"
| "host_steps (_ # es) = host_steps es"

fun delays :: "event list \<Rightarrow> nat list" where
  "delays [] = []"
| "delays (Delay ms # es) = ms # delays es"
| "delays (_ # es) = delays es"

text \<open>A write of the terminal outcome file (\<open>.ack\<close> or \<open>.err\<close>) of a message file.\<close>

fun is_outcome_write :: "path \<Rightarrow> event \<Rightarrow> bool" where
  "is_outcome_write msgFile (FsWrite p c) = (p = ackFile msgFile \<or> p = errFile msgFile)"
| "is_outcome_write msgFile _ = False"

fun is_unlink :: "event \<Rightarrow> bool" where
  "is_unlink (FsUnlink p) = True"
| "is_unlink _ = False"

text \<open>A write of the error file whose reason is that of the context block.\<close>

fun is_block_write :: "path \<Rightarrow> event \<Rightarrow> bool" where
  "is_block_write msgFile (FsWrite p c) =
     (p = errFile msgFile \<and> prefix (S ''mode=steer blocked: context_pct='') c)"
| "is_block_write msgFile _ = False"

text \<open>
  The shape of the events of a settled run: host steps and warning writes, then one write
  of the \<open>.ack\<close> or \<open>.err\<close> file, then the unlink of the message file, and nothing
  after it.
\<close>

fun settled :: "path \<Rightarrow> event list \<Rightarrow> bool" where
  "settled msgFile [] = False"
| "settled msgFile (Exec c # es) = settled msgFile es"
| "settled msgFile (Delay ms # es) = settled msgFile es"
| "settled msgFile (FsUnlink p # es) = False"
| "settled msgFile (FsWrite p c # es) =
     (if p = warnFile msgFile then settled msgFile es
      else (p = ackFile msgFile \<or> p = errFile msgFile) \<and> es = [FsUnlink msgFile])"

section \<open>Example environments\<close>

text \<open>
  The decimal value of a text of digits and dots, as \<open>parseFloat\<close> reads it: the
  longest prefix that is a decimal literal (digits, then optionally a dot and digits), and
  \<open>NaN\<close> with no digit on either side of the first dot. The value is exact, which is
  what JavaScript returns when the value is a binary64 number, as a natural below
  \<open>2 ^ 53\<close> is.
\<close>

definition digits_value :: "jsstring \<Rightarrow> nat" where
  "digits_value ds = foldl (\<lambda>a c. 10 * a + (unat c - 48)) 0 ds"

definition decimal_parseFloat :: "jsstring \<Rightarrow> number" where
  "decimal_parseFloat s =
     (let ip = takeWhile is_digit s;
          rest = dropWhile is_digit s;
          fp = (case rest of [] \<Rightarrow> [] | c # r \<Rightarrow> if c = DOT then takeWhile is_digit r else [])
      in if ip = [] \<and> fp = [] then NaN
         else Num (of_nat (digits_value ip) + of_nat (digits_value fp) / 10 ^ length fp))"

text \<open>Prints the numbers that are naturals below \<open>10 ^ 21\<close> as JavaScript does.\<close>

definition example_number_toString :: "number \<Rightarrow> jsstring" where
  "example_number_toString x =
     (case x of
        NaN \<Rightarrow> S ''NaN''
      | Infinity \<Rightarrow> S ''Infinity''
      | Num r \<Rightarrow> nat_toString (nat \<lfloor>r\<rfloor>))"

text \<open>
  An \<open>Error\<close> object with a message: the message is its text in the handler, and
  \<open>String\<close> prints the name of the error before it.
\<close>

definition error_object :: "jsstring \<Rightarrow> thrown" where
  "error_object msg = Thrown (Some (Inr msg)) (Inr (S ''Error: '' @ msg))"

text \<open>
  A value that has no message and that \<open>String\<close> cannot print, such as an object with
  no prototype: printing it throws a \<open>TypeError\<close>.
\<close>

definition type_error :: "jsstring \<Rightarrow> thrown" where
  "type_error msg = Thrown (Some (Inr msg)) (Inr (S ''TypeError: '' @ msg))"

definition unprintable :: thrown where
  "unprintable =
     Thrown None (Inl (type_error (S ''Cannot convert object to primitive value'')))"

text \<open>A host that resolves every command and a file system without faults.\<close>

definition quiet_env :: env where
  "quiet_env =
     \<lparr>host = (\<lambda>w c. Resolves),
      read_fault = (\<lambda>w p. None),
      write_fault = (\<lambda>w p. None),
      unlink_fault = (\<lambda>w p. None),
      enoent = (\<lambda>syscall p.
        error_object (S ''ENOENT: no such file or directory, '' @ syscall @ S '' '' @ [0x27] @ p
          @ [0x27])),
      now = S ''2026-02-20T13:20:38.533Z'',
      parseFloat = decimal_parseFloat,
      number_toString = example_number_toString\<rparr>"

text \<open>
  The same host on a file system where every write throws an \<open>Error\<close> and every unlink
  throws a value that cannot be printed.
\<close>

definition readonly_env :: env where
  "readonly_env =
     quiet_env
       \<lparr>write_fault := (\<lambda>w p.
          Some (error_object (S ''EACCES: permission denied, open '' @ [0x27] @ p @ [0x27]))),
        unlink_fault := (\<lambda>w p. Some unprintable)\<rparr>"

text \<open>A host that rejects every command with a value that cannot be printed.\<close>

definition rejecting_env :: env where
  "rejecting_env = quiet_env\<lparr>host := (\<lambda>w c. Rejects unprintable)\<rparr>"

definition inbox_with :: "(path \<times> jsstring) list \<Rightarrow> world" where
  "inbox_with fs = \<lparr>files = map_of fs, trace = []\<rparr>"

text \<open>
  An inbox \<open>/in\<close> that holds the message file \<open>/in/1.msg\<close> and a probe file with
  the given percentage.
\<close>

definition probe_text :: "jsstring \<Rightarrow> jsstring" where
  "probe_text pct =
     S ''state: running\<newline>context_pct: '' @ pct
       @ S ''\<newline>patch: 10\<newline>rsc: 42\<newline>ts: 2026-02-20T13:20:38.533Z\<newline>''"

definition inbox_probe :: "jsstring \<Rightarrow> jsstring \<Rightarrow> world" where
  "inbox_probe request pct =
     inbox_with [(S ''/in/1.msg'', request), (S ''/in/context.probe'', probe_text pct)]"

section \<open>Splitting and rejoining\<close>

lemma split_nonempty: "split sep s \<noteq> []"
  by (induction s) (auto split: list.splits)

lemma join_Cons: "ps \<noteq> [] \<Longrightarrow> join sep (p # ps) = p @ sep # join sep ps"
  by (cases ps) auto

lemma join_Cons_Cons: "join sep ((c # p) # ps) = c # join sep (p # ps)"
  by (cases ps) auto

lemma join_split: "join sep (split sep s) = s"
proof (induction s)
  case Nil
  show ?case by simp
next
  case (Cons c cs)
  obtain p ps where ps: "split sep cs = p # ps"
    using split_nonempty [of sep cs] by (cases "split sep cs") auto
  show ?case
  proof (cases "c = sep")
    case True
    then show ?thesis
      using Cons.IH by (simp add: join_Cons split_nonempty)
  next
    case False
    then show ?thesis
      using Cons.IH ps by (simp add: join_Cons_Cons)
  qed
qed

lemma split_no_sep: "p \<in> set (split sep s) \<Longrightarrow> sep \<notin> set p"
proof (induction s arbitrary: p)
  case Nil
  then show ?case by simp
next
  case (Cons c cs)
  obtain q qs where qs: "split sep cs = q # qs"
    using split_nonempty [of sep cs] by (cases "split sep cs") auto
  show ?case
  proof (cases "c = sep")
    case True
    with Cons show ?thesis by auto
  next
    case False
    with Cons.prems qs have "p = c # q \<or> p \<in> set qs"
      by simp
    then show ?thesis
    proof
      assume "p = c # q"
      moreover have "sep \<notin> set q"
        using Cons.IH [of q] qs by simp
      ultimately show ?thesis using False by auto
    next
      assume "p \<in> set qs"
      then have "p \<in> set (split sep cs)"
        using qs by simp
      then show ?thesis by (rule Cons.IH)
    qed
  qed
qed

section \<open>Steps of a run\<close>

lemma trace_emit: "trace (emit e w) = trace w @ [e]"
  by (simp add: emit_def)

lemma catch_writeFileSync:
  "\<exists>w1. io_catch (writeFileSync E p c) (\<lambda>_. io_return ()) w = (Return (), w1)
        \<and> trace w1 = trace w @ [FsWrite p c]"
  by (simp add: io_catch_def writeFileSync_def io_return_def emit_def split: option.splits)

lemma catch_unlinkSync:
  "\<exists>w1. io_catch (unlinkSync E p) (\<lambda>_. io_return ()) w = (Return (), w1)
        \<and> trace w1 = trace w @ [FsUnlink p]"
  by (simp add: io_catch_def unlinkSync_def io_return_def emit_def split: option.splits)

lemma cleanup_result:
  "\<exists>w1. cleanup E m out c w = (Return (), w1) \<and> trace w1 = trace w @ [FsWrite out c, FsUnlink m]"
proof -
  obtain w1 where w1: "io_catch (writeFileSync E out c) (\<lambda>_. io_return ()) w = (Return (), w1)"
    and t1: "trace w1 = trace w @ [FsWrite out c]"
    using catch_writeFileSync by blast
  obtain w2 where w2: "io_catch (unlinkSync E m) (\<lambda>_. io_return ()) w1 = (Return (), w2)"
    and t2: "trace w2 = trace w1 @ [FsUnlink m]"
    using catch_unlinkSync by blast
  have "cleanup E m out c w = (Return (), w2)"
    by (simp add: cleanup_def io_bind_def w1 w2)
  then show ?thesis using t1 t2 by simp
qed

lemma fst_cleanup: "fst (cleanup E m out c w) = Return ()"
  using cleanup_result [of E m out c w] by auto

lemma trace_cleanup: "trace (snd (cleanup E m out c w)) = trace w @ [FsWrite out c, FsUnlink m]"
  using cleanup_result [of E m out c w] by auto

lemma fst_writeWarn: "fst (writeWarn E m c w) = Return ()"
  using catch_writeFileSync [of E "warnFile m" c w] by (auto simp: writeWarn_def)

lemma trace_writeWarn: "trace (snd (writeWarn E m c w)) = trace w @ [FsWrite (warnFile m) c]"
  using catch_writeFileSync [of E "warnFile m" c w] by (auto simp: writeWarn_def)

lemma catch_bind_exec:
  "io_catch (io_bind (executeCommand E c) f) h w =
     (case host E w c of
        Resolves \<Rightarrow> io_catch (f ()) h (emit (Exec c) w)
      | Rejects e \<Rightarrow> h e (emit (Exec c) w)
      | Never \<Rightarrow> (Pending, emit (Exec c) w))"
  by (simp add: io_catch_def io_bind_def executeCommand_def split: host_result.splits)

lemma catch_bind_delay:
  "io_catch (io_bind (delay ms) f) h w = io_catch (f ()) h (emit (Delay ms) w)"
  by (simp add: io_catch_def io_bind_def delay_def)

lemma catch_cleanup: "io_catch (cleanup E m out c) h w = cleanup E m out c w"
  using cleanup_result [of E m out c w] by (auto simp: io_catch_def)

lemma catch_bind_Return:
  "m w = (Return a, w1) \<Longrightarrow> io_catch (io_bind m f) h w = io_catch (f a) h w1"
  by (simp add: io_catch_def io_bind_def)

lemma catch_Throw: "m w = (Throw e, w1) \<Longrightarrow> io_catch (io_bind m f) h w = h e w1"
  by (simp add: io_catch_def io_bind_def)

lemma mode_literals:
  "S ''steer'' \<noteq> S ''send''" "S ''stop-and-send'' \<noteq> S ''send''" "S ''queue'' \<noteq> S ''send''"
  "S ''compact'' \<noteq> S ''send''" "S ''stop-and-send'' \<noteq> S ''steer''" "S ''queue'' \<noteq> S ''steer''"
  "S ''compact'' \<noteq> S ''steer''" "S ''queue'' \<noteq> S ''stop-and-send''"
  "S ''compact'' \<noteq> S ''stop-and-send''" "S ''compact'' \<noteq> S ''queue''"
  by (simp_all add: S_def)

lemma out_files_distinct:
  "ackFile m \<noteq> errFile m" "ackFile m \<noteq> warnFile m" "errFile m \<noteq> warnFile m"
  "errFile m \<noteq> ackFile m" "warnFile m \<noteq> ackFile m" "warnFile m \<noteq> errFile m"
  by (simp_all add: ackFile_def errFile_def warnFile_def path_join_def S_def)

section \<open>The modes, one by one\<close>

lemma run_send:
  "io_catch (dispatch E m sid (S ''send'') msg) (on_error E m) w =
     (case host E w (ChatOpen msg False) of
        Resolves \<Rightarrow>
          cleanup E m (ackFile m) (S ''sent sessionId='' @ substring0 sid 8 @ S ''... at '' @ now E)
            (emit (Exec (ChatOpen msg False)) w)
      | Rejects e \<Rightarrow> on_error E m e (emit (Exec (ChatOpen msg False)) w)
      | Never \<Rightarrow> (Pending, emit (Exec (ChatOpen msg False)) w))"
  by (simp add: dispatch_def catch_bind_exec catch_cleanup split: host_result.splits)

lemma run_steer:
  "io_catch (dispatch E m sid (S ''steer'') msg) (on_error E m) w =
     (case host E w (ChatOpen msg True) of
        Resolves \<Rightarrow>
          (case host E (emit (Delay 100) (emit (Exec (ChatOpen msg True)) w)) ChatSteerWithMessage of
             Resolves \<Rightarrow>
               cleanup E m (ackFile m)
                 (S ''steered (steerWithMessage) sessionId='' @ substring0 sid 8 @ S ''... at '' @ now E)
                 (emit (Exec ChatSteerWithMessage) (emit (Delay 100) (emit (Exec (ChatOpen msg True)) w)))
           | Rejects e \<Rightarrow>
               on_error E m e
                 (emit (Exec ChatSteerWithMessage) (emit (Delay 100) (emit (Exec (ChatOpen msg True)) w)))
           | Never \<Rightarrow>
               (Pending,
                emit (Exec ChatSteerWithMessage) (emit (Delay 100) (emit (Exec (ChatOpen msg True)) w))))
      | Rejects e \<Rightarrow> on_error E m e (emit (Exec (ChatOpen msg True)) w)
      | Never \<Rightarrow> (Pending, emit (Exec (ChatOpen msg True)) w))"
  by (simp add: dispatch_def mode_literals catch_bind_exec catch_bind_delay catch_cleanup
      split: host_result.splits)

lemma run_stop_and_send:
  "io_catch (dispatch E m sid (S ''stop-and-send'') msg) (on_error E m) w =
     (case host E w ChatCancel of
        Resolves \<Rightarrow>
          (case host E (emit (Delay 300) (emit (Exec ChatCancel) w)) (ChatOpen msg False) of
             Resolves \<Rightarrow>
               cleanup E m (ackFile m)
                 (S ''stop-and-send sessionId='' @ substring0 sid 8 @ S ''... at '' @ now E)
                 (emit (Exec (ChatOpen msg False)) (emit (Delay 300) (emit (Exec ChatCancel) w)))
           | Rejects e \<Rightarrow>
               on_error E m e
                 (emit (Exec (ChatOpen msg False)) (emit (Delay 300) (emit (Exec ChatCancel) w)))
           | Never \<Rightarrow>
               (Pending,
                emit (Exec (ChatOpen msg False)) (emit (Delay 300) (emit (Exec ChatCancel) w))))
      | Rejects e \<Rightarrow> on_error E m e (emit (Exec ChatCancel) w)
      | Never \<Rightarrow> (Pending, emit (Exec ChatCancel) w))"
  by (simp add: dispatch_def mode_literals catch_bind_exec catch_bind_delay catch_cleanup
      split: host_result.splits)

lemma run_queue:
  "io_catch (dispatch E m sid (S ''queue'') msg) (on_error E m) w =
     (case host E w (ChatOpen msg True) of
        Resolves \<Rightarrow>
          (case host E (emit (Delay 100) (emit (Exec (ChatOpen msg True)) w)) ChatQueueMessage of
             Resolves \<Rightarrow>
               cleanup E m (ackFile m)
                 (S ''queued (queueMessage) sessionId='' @ substring0 sid 8 @ S ''... at '' @ now E)
                 (emit (Exec ChatQueueMessage) (emit (Delay 100) (emit (Exec (ChatOpen msg True)) w)))
           | Rejects e \<Rightarrow>
               on_error E m e
                 (emit (Exec ChatQueueMessage) (emit (Delay 100) (emit (Exec (ChatOpen msg True)) w)))
           | Never \<Rightarrow>
               (Pending,
                emit (Exec ChatQueueMessage) (emit (Delay 100) (emit (Exec (ChatOpen msg True)) w))))
      | Rejects e \<Rightarrow> on_error E m e (emit (Exec (ChatOpen msg True)) w)
      | Never \<Rightarrow> (Pending, emit (Exec (ChatOpen msg True)) w))"
  by (simp add: dispatch_def mode_literals catch_bind_exec catch_bind_delay catch_cleanup
      split: host_result.splits)

lemma run_compact:
  "io_catch (dispatch E m sid (S ''compact'') msg) (on_error E m) w =
     (case host E w ChatShowContextUsage of
        Resolves \<Rightarrow>
          cleanup E m (ackFile m)
            (S ''compact: opened context usage panel at '' @ now E
               @ S ''. No direct compact command in VS Code '' @ EM_DASH
               @ S '' press compact in the panel.'')
            (emit (Exec ChatShowContextUsage) w)
      | Rejects e \<Rightarrow> on_error E m e (emit (Exec ChatShowContextUsage) w)
      | Never \<Rightarrow> (Pending, emit (Exec ChatShowContextUsage) w))"
  by (simp add: dispatch_def mode_literals catch_bind_exec catch_cleanup split: host_result.splits)

lemma run_unknown:
  assumes "mode \<noteq> S ''send''" "mode \<noteq> S ''steer''" "mode \<noteq> S ''stop-and-send''"
    "mode \<noteq> S ''queue''" "mode \<noteq> S ''compact''"
  shows "io_catch (dispatch E m sid mode msg) (on_error E m) w =
     cleanup E m (errFile m)
       (S ''Unknown mode=\"'' @ mode @ S ''\" '' @ EM_DASH
          @ S '' supported modes: send, steer, stop-and-send, queue, compact'') w"
  using assms by (simp add: dispatch_def catch_cleanup)

section \<open>Any mode\<close>

lemma other_reasons:
  "\<not> prefix (S ''mode=steer blocked: context_pct='') (S ''Unknown mode=\"'' @ x)"
  "\<not> prefix (S ''mode=steer blocked: context_pct='') (S ''Exception: '' @ x)"
  by (simp_all add: S_def)


lemmas run_mode = run_send run_steer run_stop_and_send run_queue run_compact

lemma fst_on_error:
  "fst (on_error E m e w) = (case error_text e of Inl e1 \<Rightarrow> Throw e1 | Inr t \<Rightarrow> Return ())"
  by (simp add: on_error_def fst_cleanup split: sum.splits)

lemma trace_on_error:
  "trace (snd (on_error E m e w)) =
     (case error_text e of
        Inl e1 \<Rightarrow> trace w
      | Inr t \<Rightarrow> trace w @ [FsWrite (errFile m) (S ''Exception: '' @ t), FsUnlink m])"
  by (simp add: on_error_def trace_cleanup split: sum.splits)

lemmas on_error_run = fst_on_error trace_on_error

lemma caught_dispatch_throw:
  assumes "fst (io_catch (dispatch E m sid mode msg) (on_error E m) w) = Throw e"
  shows "\<exists>e0 w1 c. error_text e0 = Inl e \<and> host E w1 c = Rejects e0"
proof -
  consider "mode = S ''send''" | "mode = S ''steer''" | "mode = S ''stop-and-send''"
    | "mode = S ''queue''" | "mode = S ''compact''"
    | "mode \<noteq> S ''send''" "mode \<noteq> S ''steer''" "mode \<noteq> S ''stop-and-send''"
      "mode \<noteq> S ''queue''" "mode \<noteq> S ''compact''"
    by blast
  then show ?thesis
    using assms
    by cases
      (auto simp: run_mode run_unknown on_error_run fst_cleanup
        split: host_result.splits sum.splits)
qed

lemma caught_dispatch_events:
  "\<exists>evs. trace (snd (io_catch (dispatch E m sid mode msg) (on_error E m) w)) = trace w @ evs
     \<and> (fst (io_catch (dispatch E m sid mode msg) (on_error E m) w) = Return () \<longrightarrow> settled m evs)
     \<and> (\<forall>e. fst (io_catch (dispatch E m sid mode msg) (on_error E m) w) = Throw e \<longrightarrow>
           filter (is_outcome_write m) evs = [] \<and> filter is_unlink evs = [])
     \<and> \<not> list_ex (is_block_write m) evs"
proof -
  consider "mode = S ''send''" | "mode = S ''steer''" | "mode = S ''stop-and-send''"
    | "mode = S ''queue''" | "mode = S ''compact''"
    | "mode \<noteq> S ''send''" "mode \<noteq> S ''steer''" "mode \<noteq> S ''stop-and-send''"
      "mode \<noteq> S ''queue''" "mode \<noteq> S ''compact''"
    by blast
  then show ?thesis
    by cases (simp_all add: run_mode run_unknown on_error_run fst_cleanup trace_cleanup trace_emit
        out_files_distinct other_reasons split: host_result.splits sum.splits)
qed

section \<open>The handler before dispatch\<close>

lemma readFileSync_world: "readFileSync E p w = (r, w1) \<Longrightarrow> w1 = w \<and> r \<noteq> Pending"
  by (auto simp: readFileSync_def split: option.splits)

lemma readContextProbe_result: "\<exists>pr. readContextProbe E inboxPath w = (Return pr, w)"
  by (auto simp: readContextProbe_def io_catch_def io_bind_def existsSync_def io_return_def
      readFileSync_def Let_def split: option.splits)

lemma onDidCreate_unreadable:
  assumes "readFileSync E m w = (Throw e, w)"
  shows "onDidCreate E inboxPath m w = on_error E m e w"
  using assms
  by (simp add: onDidCreate_def try_body_def catch_Throw [where m = "readFileSync E m"])

lemma onDidCreate_malformed:
  assumes "readFileSync E m w = (Return content, w)"
    and "length (split BAR (trim content)) < 3"
  shows "onDidCreate E inboxPath m w =
     cleanup E m (errFile m)
       (S ''Invalid format '' @ EM_DASH @ S '' expected \"sessionId|mode|message\", got ''
          @ nat_toString (length (split BAR (trim content))) @ S '' segment(s)'') w"
  using assms
  by (simp add: onDidCreate_def try_body_def catch_bind_Return [where m = "readFileSync E m", OF assms(1)] Let_def catch_cleanup)

lemma onDidCreate_empty_field:
  assumes "readFileSync E m w = (Return content, w)"
    and "split BAR (trim content) = sessionId # mode # rest" and "rest \<noteq> []"
    and "sessionId = [] \<or> mode = [] \<or> join BAR rest = []"
  shows "onDidCreate E inboxPath m w =
     cleanup E m (errFile m)
       (S ''Empty field '' @ EM_DASH @ S '' sessionId=\"'' @ sessionId
          @ S ''\" mode=\"'' @ mode @ S ''\" message=\"'' @ join BAR rest @ S ''\"'') w"
proof -
  have len: "\<not> length (split BAR (trim content)) < 3"
    using assms(2,3) by (cases rest) auto
  show ?thesis
    using assms(4) len
    by (simp add: onDidCreate_def try_body_def catch_bind_Return [where m = "readFileSync E m", OF assms(1)] Let_def
        catch_cleanup assms(2))
qed

lemma onDidCreate_valid:
  assumes "readFileSync E m w = (Return content, w)"
    and "split BAR (trim content) = sessionId # mode # rest" and "rest \<noteq> []"
    and "sessionId \<noteq> []" and "mode \<noteq> []" and "join BAR rest \<noteq> []"
    and "readContextProbe E inboxPath w = (Return pr, w)"
  shows "onDidCreate E inboxPath m w =
     (case pr of
        None \<Rightarrow> io_catch (dispatch E m sessionId mode (join BAR rest)) (on_error E m) w
      | Some p \<Rightarrow>
          if num_gt (contextPct p) 95 \<and> mode = S ''steer'' then
            cleanup E m (errFile m)
              (S ''mode=steer blocked: context_pct='' @ number_toString E (contextPct p)
                 @ S ''% > 95%. Use mode=compact first, then retry.'') w
          else if num_gt (contextPct p) 80 then
            io_catch (dispatch E m sessionId mode (join BAR rest)) (on_error E m)
              (snd (writeWarn E m
                 (S ''context warning: context_pct='' @ number_toString E (contextPct p)
                    @ S ''% > 80% (approaching compaction zone, patch=''
                    @ number_toString E (patch p) @ S '')'') w))
          else io_catch (dispatch E m sessionId mode (join BAR rest)) (on_error E m) w)"
proof -
  have len: "\<not> length (split BAR (trim content)) < 3"
    using assms(2,3) by (cases rest) auto
  have body: "onDidCreate E inboxPath m w =
      io_catch
        (io_bind (readContextProbe E inboxPath) (\<lambda>probe.
           case probe of
             None \<Rightarrow> dispatch E m sessionId mode (join BAR rest)
           | Some p \<Rightarrow>
               if num_gt (contextPct p) 95 \<and> mode = S ''steer'' then
                 cleanup E m (errFile m)
                   (S ''mode=steer blocked: context_pct='' @ number_toString E (contextPct p)
                      @ S ''% > 95%. Use mode=compact first, then retry.'')
               else
                 io_bind
                   (if num_gt (contextPct p) 80 then
                      writeWarn E m
                        (S ''context warning: context_pct='' @ number_toString E (contextPct p)
                           @ S ''% > 80% (approaching compaction zone, patch=''
                           @ number_toString E (patch p) @ S '')'')
                    else io_return ())
                   (\<lambda>_. dispatch E m sessionId mode (join BAR rest))))
        (on_error E m) w"
    using len assms(4,5,6)
    by (simp add: onDidCreate_def try_body_def catch_bind_Return [where m = "readFileSync E m", OF assms(1)] Let_def assms(2))
  show ?thesis
  proof (cases pr)
    case None
    then show ?thesis
      using assms(7) by (simp add: body catch_bind_Return [where m = "readContextProbe E inboxPath", OF assms(7)])
  next
    case (Some p)
    let ?warning = "S ''context warning: context_pct='' @ number_toString E (contextPct p)
                    @ S ''% > 80% (approaching compaction zone, patch=''
                    @ number_toString E (patch p) @ S '')''"
    have warn: "writeWarn E m ?warning w = (Return (), snd (writeWarn E m ?warning w))"
      using fst_writeWarn [of E m ?warning w] by (cases "writeWarn E m ?warning w") simp
    have ret: "io_return () w = (Return (), w)"
      by (simp add: io_return_def)
    show ?thesis
      using Some
      by (simp add: body catch_bind_Return [where m = "readContextProbe E inboxPath", OF assms(7)] catch_cleanup
          catch_bind_Return [where m = "writeWarn E m ?warning", OF warn] catch_bind_Return [where m = "io_return ()", OF ret])
  qed
qed


section \<open>Example inputs\<close>

lemma quiet_read:
  "map_of fs p = Some c \<Longrightarrow> readFileSync quiet_env p (inbox_with fs) = (Return c, inbox_with fs)"
  by (simp add: readFileSync_def quiet_env_def inbox_with_def)

lemma readonly_read:
  "map_of fs p = Some c \<Longrightarrow> readFileSync readonly_env p (inbox_with fs) = (Return c, inbox_with fs)"
  by (simp add: readFileSync_def readonly_env_def quiet_env_def inbox_with_def)

lemma new_events_inbox: "new_events (inbox_with fs) w1 = trace w1"
  by (simp add: new_events_def inbox_with_def)

section \<open>Claims about parsing\<close>

text \<open>
  C2. When the trimmed content of the message file splits on \<open>|\<close> into fewer than 3
  segments, the run ends normally, its only events are the write of the \<open>.err\<close> file
  with the reason \<open>Invalid format ... got N segment(s)\<close>, where \<open>N\<close> is the number
  of segments, and the unlink of the message file; no host command is invoked.
\<close>

theorem C2_malformed_segment_count:
  assumes "readFileSync E msgFile w = (Return content, w)"
    and "length (split BAR (trim content)) < 3"
  shows "fst (onDidCreate E inboxPath msgFile w) = Return ()
    \<and> new_events w (snd (onDidCreate E inboxPath msgFile w)) =
        [FsWrite (errFile msgFile)
           (S ''Invalid format '' @ EM_DASH @ S '' expected \"sessionId|mode|message\", got ''
              @ nat_toString (length (split BAR (trim content))) @ S '' segment(s)''),
         FsUnlink msgFile]
    \<and> host_invocations (new_events w (snd (onDidCreate E inboxPath msgFile w))) = []"
  by (simp add: onDidCreate_malformed [OF assms] fst_cleanup new_events_def trace_cleanup)

theorem C2_malformed_segment_count_witness:
  "readFileSync quiet_env (S ''/in/1.msg'') (inbox_with [(S ''/in/1.msg'', S ''abc|send'')])
     = (Return (S ''abc|send''), inbox_with [(S ''/in/1.msg'', S ''abc|send'')])
   \<and> length (split BAR (trim (S ''abc|send''))) < 3
   \<and> fst (onDidCreate quiet_env (S ''/in'') (S ''/in/1.msg'')
        (inbox_with [(S ''/in/1.msg'', S ''abc|send'')])) = Return ()
   \<and> trace (snd (onDidCreate quiet_env (S ''/in'') (S ''/in/1.msg'')
        (inbox_with [(S ''/in/1.msg'', S ''abc|send'')]))) =
        [FsWrite (S ''/in/1.err'')
           (S ''Invalid format '' @ EM_DASH @ S '' expected \"sessionId|mode|message\", got ''
              @ S ''2'' @ S '' segment(s)''),
         FsUnlink (S ''/in/1.msg'')]"
proof -
  have rd: "readFileSync quiet_env (S ''/in/1.msg'') (inbox_with [(S ''/in/1.msg'', S ''abc|send'')])
     = (Return (S ''abc|send''), inbox_with [(S ''/in/1.msg'', S ''abc|send'')])"
    by (rule quiet_read) simp
  have parts: "split BAR (trim (S ''abc|send'')) = [S ''abc'', S ''send'']"
    by (simp add: S_def trim_def is_space_def is_line_terminator_def BAR_def)
  have len: "length (split BAR (trim (S ''abc|send''))) < 3"
    by (simp add: parts)
  have err: "errFile (S ''/in/1.msg'') = S ''/in/1.err''"
    by (simp add: errFile_def dirname_def basename_def SLASH_def path_join_def S_def
        suffix_to_prefix)
  have two: "nat_toString (Suc (Suc 0)) = S ''2''"
    by (simp add: nat_toString.simps S_def)
  show ?thesis
    using C2_malformed_segment_count [OF rd len, of "S ''/in''"] rd len
    by (simp add: new_events_inbox parts err two)
qed


lemma fields_of_split:
  assumes "split BAR raw = sessionId # mode # messageParts" and "messageParts \<noteq> []"
  shows "raw = sessionId @ BAR # mode @ BAR # join BAR messageParts"
    and "BAR \<notin> set sessionId" and "BAR \<notin> set mode"
proof -
  have "raw = join BAR (sessionId # mode # messageParts)"
    using join_split [of BAR raw] assms(1) by simp
  then show "raw = sessionId @ BAR # mode @ BAR # join BAR messageParts"
    using assms(2) by (simp add: join_Cons)
  show "BAR \<notin> set sessionId"
    using split_no_sep [of sessionId BAR raw] assms(1) by simp
  show "BAR \<notin> set mode"
    using split_no_sep [of mode BAR raw] assms(1) by simp
qed

lemma quiet_no_probe:
  "map_of fs (path_join inboxPath (S ''context.probe'')) = None \<Longrightarrow>
   readContextProbe quiet_env inboxPath (inbox_with fs) = (Return None, inbox_with fs)"
  by (simp add: readContextProbe_def io_catch_def io_bind_def existsSync_def io_return_def
      inbox_with_def Let_def)

lemma example_paths:
  "ackFile (S ''/in/1.msg'') = S ''/in/1.ack''"
  "errFile (S ''/in/1.msg'') = S ''/in/1.err''"
  "warnFile (S ''/in/1.msg'') = S ''/in/1.warn''"
  "path_join (S ''/in'') (S ''context.probe'') = S ''/in/context.probe''"
  by (simp_all add: ackFile_def errFile_def warnFile_def dirname_def basename_def SLASH_def
      path_join_def S_def suffix_to_prefix)

lemma example_split:
  "split BAR (trim (S ''abc|send|hello|world'')) = [S ''abc'', S ''send'', S ''hello'', S ''world'']"
  by (simp add: S_def trim_def is_space_def is_line_terminator_def BAR_def)

lemma example_join: "join BAR [S ''hello'', S ''world''] = S ''hello|world''"
  by (simp add: S_def BAR_def)

text \<open>
  C3. When the trimmed content splits into the segments \<open>sessionId\<close>, \<open>mode\<close> and at
  least one more, the content is \<open>sessionId|mode|message\<close> where \<open>message\<close> is the
  remaining segments joined with \<open>|\<close>, and neither \<open>sessionId\<close> nor \<open>mode\<close>
  contains \<open>|\<close>. With no field empty and no probe file, these are the values the handler
  dispatches. The content \<open>abc|send|hello|world\<close> has the four segments \<open>abc\<close>,
  \<open>send\<close>, \<open>hello\<close>, \<open>world\<close>, and its message is \<open>hello|world\<close>.
\<close>

theorem C3_fields_of_segments:
  assumes "split BAR (trim content) = sessionId # mode # messageParts"
    and "messageParts \<noteq> []"
  shows "trim content = sessionId @ BAR # mode @ BAR # join BAR messageParts
    \<and> BAR \<notin> set sessionId \<and> BAR \<notin> set mode
    \<and> (readFileSync E msgFile w = (Return content, w)
         \<and> sessionId \<noteq> [] \<and> mode \<noteq> [] \<and> join BAR messageParts \<noteq> []
         \<and> readContextProbe E inboxPath w = (Return None, w)
       \<longrightarrow> onDidCreate E inboxPath msgFile w =
             io_catch (dispatch E msgFile sessionId mode (join BAR messageParts))
               (on_error E msgFile) w)
    \<and> split BAR (trim (S ''abc|send|hello|world'')) =
        [S ''abc'', S ''send'', S ''hello'', S ''world'']
    \<and> join BAR [S ''hello'', S ''world''] = S ''hello|world''"
  using fields_of_split [OF assms] onDidCreate_valid [OF _ assms, of E msgFile w inboxPath None]
    example_join
  by (simp add: example_split)

theorem C3_fields_of_segments_witness:
  "split BAR (trim (S ''abc|send|hello|world'')) = S ''abc'' # S ''send'' # [S ''hello'', S ''world'']
   \<and> [S ''hello'', S ''world''] \<noteq> []
   \<and> readFileSync quiet_env (S ''/in/1.msg'') (inbox_with [(S ''/in/1.msg'', S ''abc|send|hello|world'')])
       = (Return (S ''abc|send|hello|world''), inbox_with [(S ''/in/1.msg'', S ''abc|send|hello|world'')])
   \<and> S ''abc'' \<noteq> [] \<and> S ''send'' \<noteq> [] \<and> join BAR [S ''hello'', S ''world''] \<noteq> []
   \<and> readContextProbe quiet_env (S ''/in'') (inbox_with [(S ''/in/1.msg'', S ''abc|send|hello|world'')])
       = (Return None, inbox_with [(S ''/in/1.msg'', S ''abc|send|hello|world'')])
   \<and> trim (S ''abc|send|hello|world'') = S ''abc'' @ BAR # S ''send'' @ BAR # S ''hello|world''
   \<and> onDidCreate quiet_env (S ''/in'') (S ''/in/1.msg'')
        (inbox_with [(S ''/in/1.msg'', S ''abc|send|hello|world'')]) =
      io_catch (dispatch quiet_env (S ''/in/1.msg'') (S ''abc'') (S ''send'') (S ''hello|world''))
        (on_error quiet_env (S ''/in/1.msg'')) (inbox_with [(S ''/in/1.msg'', S ''abc|send|hello|world'')])"
proof -
  have parts: "split BAR (trim (S ''abc|send|hello|world'')) =
      S ''abc'' # S ''send'' # [S ''hello'', S ''world'']"
    by (rule example_split)
  have rd: "readFileSync quiet_env (S ''/in/1.msg'')
      (inbox_with [(S ''/in/1.msg'', S ''abc|send|hello|world'')])
      = (Return (S ''abc|send|hello|world''), inbox_with [(S ''/in/1.msg'', S ''abc|send|hello|world'')])"
    by (rule quiet_read) simp
  have np: "readContextProbe quiet_env (S ''/in'')
      (inbox_with [(S ''/in/1.msg'', S ''abc|send|hello|world'')])
      = (Return None, inbox_with [(S ''/in/1.msg'', S ''abc|send|hello|world'')])"
    by (rule quiet_no_probe) (simp add: example_paths, simp add: S_def)
  have ne: "S ''abc'' \<noteq> []" "S ''send'' \<noteq> []" "join BAR [S ''hello'', S ''world''] \<noteq> []"
    by (simp_all add: S_def)
  show ?thesis
    using C3_fields_of_segments [OF parts, of quiet_env "S ''/in/1.msg''"
        "inbox_with [(S ''/in/1.msg'', S ''abc|send|hello|world'')]" "S ''/in''"]
      parts rd np ne example_join
    by simp
qed

text \<open>
  C4. When the trimmed content has 3 or more segments and \<open>sessionId\<close>, \<open>mode\<close> or the
  rejoined message is empty, the run ends normally, its only events are the write of the
  \<open>.err\<close> file with the reason \<open>Empty field ...\<close>, which prints the three fields
  between double quotes, and the unlink of the message file; the reason does not start
  as the reason of a wrong segment count does, and no host command is invoked.
\<close>

theorem C4_empty_field:
  assumes "readFileSync E msgFile w = (Return content, w)"
    and "split BAR (trim content) = sessionId # mode # messageParts"
    and "messageParts \<noteq> []"
    and "sessionId = [] \<or> mode = [] \<or> join BAR messageParts = []"
  shows "fst (onDidCreate E inboxPath msgFile w) = Return ()
    \<and> new_events w (snd (onDidCreate E inboxPath msgFile w)) =
        [FsWrite (errFile msgFile)
           (S ''Empty field '' @ EM_DASH @ S '' sessionId=\"'' @ sessionId
              @ S ''\" mode=\"'' @ mode @ S ''\" message=\"'' @ join BAR messageParts @ S ''\"''),
         FsUnlink msgFile]
    \<and> \<not> prefix (S ''Invalid format'')
        (S ''Empty field '' @ EM_DASH @ S '' sessionId=\"'' @ sessionId
              @ S ''\" mode=\"'' @ mode @ S ''\" message=\"'' @ join BAR messageParts @ S ''\"'')
    \<and> host_invocations (new_events w (snd (onDidCreate E inboxPath msgFile w))) = []"
proof -
  have "\<not> prefix (S ''Invalid format'') (S ''Empty field '' @ x)" for x
    by (simp add: S_def)
  then show ?thesis
    by (simp add: onDidCreate_empty_field [OF assms] fst_cleanup new_events_def trace_cleanup)
qed

theorem C4_empty_field_witness:
  "readFileSync quiet_env (S ''/in/1.msg'') (inbox_with [(S ''/in/1.msg'', S ''abc||hello'')])
     = (Return (S ''abc||hello''), inbox_with [(S ''/in/1.msg'', S ''abc||hello'')])
   \<and> split BAR (trim (S ''abc||hello'')) = S ''abc'' # [] # [S ''hello'']
   \<and> [S ''hello''] \<noteq> []
   \<and> (S ''abc'' = [] \<or> ([] :: jsstring) = [] \<or> join BAR [S ''hello''] = [])
   \<and> fst (onDidCreate quiet_env (S ''/in'') (S ''/in/1.msg'')
        (inbox_with [(S ''/in/1.msg'', S ''abc||hello'')])) = Return ()
   \<and> trace (snd (onDidCreate quiet_env (S ''/in'') (S ''/in/1.msg'')
        (inbox_with [(S ''/in/1.msg'', S ''abc||hello'')]))) =
        [FsWrite (S ''/in/1.err'')
           (S ''Empty field '' @ EM_DASH @ S '' sessionId=\"'' @ S ''abc''
              @ S ''\" mode=\"'' @ S ''\" message=\"'' @ S ''hello'' @ S ''\"''),
         FsUnlink (S ''/in/1.msg'')]"
proof -
  have rd: "readFileSync quiet_env (S ''/in/1.msg'') (inbox_with [(S ''/in/1.msg'', S ''abc||hello'')])
     = (Return (S ''abc||hello''), inbox_with [(S ''/in/1.msg'', S ''abc||hello'')])"
    by (rule quiet_read) simp
  have parts: "split BAR (trim (S ''abc||hello'')) = S ''abc'' # [] # [S ''hello'']"
    by (simp add: S_def trim_def is_space_def is_line_terminator_def BAR_def)
  have ne: "[S ''hello''] \<noteq> []"
    by simp
  have empty: "S ''abc'' = [] \<or> ([] :: jsstring) = [] \<or> join BAR [S ''hello''] = []"
    by simp
  show ?thesis
    using C4_empty_field [OF rd parts ne empty, of "S ''/in''"] rd parts
    by (simp add: new_events_inbox example_paths)
qed


section \<open>Every run that returns is settled\<close>

lemma settled_counts:
  "settled m evs \<Longrightarrow>
     length (filter (is_outcome_write m) evs) = 1
   \<and> filter is_unlink evs = [FsUnlink m]
   \<and> (\<exists>pre out c. evs = pre @ [FsWrite out c, FsUnlink m] \<and> (out = ackFile m \<or> out = errFile m))"
proof (induction m evs rule: settled.induct)
  case (5 msgFile p c es)
  show ?case
  proof (cases "p = warnFile msgFile")
    case True
    with 5 have ih: "length (filter (is_outcome_write msgFile) es) = 1
        \<and> filter is_unlink es = [FsUnlink msgFile]
        \<and> (\<exists>pre out c. es = pre @ [FsWrite out c, FsUnlink msgFile]
             \<and> (out = ackFile msgFile \<or> out = errFile msgFile))"
      by simp
    then obtain pre out c' where es: "es = pre @ [FsWrite out c', FsUnlink msgFile]"
      and out: "out = ackFile msgFile \<or> out = errFile msgFile"
      by blast
    have "FsWrite p c # es = (FsWrite p c # pre) @ [FsWrite out c', FsUnlink msgFile]"
      using es by simp
    then show ?thesis
      using ih True out by (simp add: out_files_distinct; blast)
  next
    case False
    with 5 have "(p = ackFile msgFile \<or> p = errFile msgFile) \<and> es = [FsUnlink msgFile]"
      by simp
    then show ?thesis by auto
  qed
next
  case (2 msgFile c es)
  then obtain pre out c' where es: "es = pre @ [FsWrite out c', FsUnlink msgFile]"
      and out: "out = ackFile msgFile \<or> out = errFile msgFile"
    by auto
  have "Exec c # es = (Exec c # pre) @ [FsWrite out c', FsUnlink msgFile]"
    using es by simp
  then show ?case using 2 out by (simp; blast)
next
  case (3 msgFile ms es)
  then obtain pre out c' where es: "es = pre @ [FsWrite out c', FsUnlink msgFile]"
      and out: "out = ackFile msgFile \<or> out = errFile msgFile"
    by auto
  have "Delay ms # es = (Delay ms # pre) @ [FsWrite out c', FsUnlink msgFile]"
    using es by simp
  then show ?case using 3 out by (simp; blast)
qed simp_all

lemma three_or_more:
  "\<not> length xs < 3 \<Longrightarrow> \<exists>a b rest. xs = a # b # rest \<and> rest \<noteq> []"
  by (cases xs; cases "tl xs"; cases "tl (tl xs)") auto

lemma settled_cleanup:
  "out = ackFile m \<or> out = errFile m \<Longrightarrow> settled m (new_events w (snd (cleanup E m out c w)))"
  by (auto simp: new_events_def trace_cleanup out_files_distinct)

lemma caught_dispatch_settled:
  assumes "fst (io_catch (dispatch E m sid mode msg) (on_error E m) w1) = Return ()"
    and "trace w1 = trace w \<or> (\<exists>c. trace w1 = trace w @ [FsWrite (warnFile m) c])"
  shows "settled m (new_events w (snd (io_catch (dispatch E m sid mode msg) (on_error E m) w1)))"
proof -
  obtain evs where
    evs: "trace (snd (io_catch (dispatch E m sid mode msg) (on_error E m) w1)) = trace w1 @ evs"
    and st: "settled m evs"
    using caught_dispatch_events [of E m sid mode msg w1] assms(1) by blast
  from assms(2) show ?thesis
    using evs st by (auto simp: new_events_def)
qed

lemma caught_dispatch_thrown:
  assumes "fst (io_catch (dispatch E m sid mode msg) (on_error E m) w1) = Throw e"
    and "trace w1 = trace w \<or> (\<exists>c. trace w1 = trace w @ [FsWrite (warnFile m) c])"
  shows "filter (is_outcome_write m)
      (new_events w (snd (io_catch (dispatch E m sid mode msg) (on_error E m) w1))) = []
    \<and> filter is_unlink
      (new_events w (snd (io_catch (dispatch E m sid mode msg) (on_error E m) w1))) = []"
proof -
  obtain evs where
    evs: "trace (snd (io_catch (dispatch E m sid mode msg) (on_error E m) w1)) = trace w1 @ evs"
    and no: "filter (is_outcome_write m) evs = [] \<and> filter is_unlink evs = []"
    using caught_dispatch_events [of E m sid mode msg w1] assms(1) by blast
  from assms(2) show ?thesis
    using evs no by (auto simp: new_events_def out_files_distinct)
qed

lemma onDidCreate_shape:
  "(fst (onDidCreate E inboxPath m w) = Return () \<longrightarrow>
      settled m (new_events w (snd (onDidCreate E inboxPath m w))))
   \<and> (fst (onDidCreate E inboxPath m w) = Throw e \<longrightarrow>
        (\<exists>e0. error_text e0 = Inl e
           \<and> (readFileSync E m w = (Throw e0, w) \<or> (\<exists>w1 c. host E w1 c = Rejects e0)))
      \<and> filter (is_outcome_write m) (new_events w (snd (onDidCreate E inboxPath m w))) = []
      \<and> filter is_unlink (new_events w (snd (onDidCreate E inboxPath m w))) = [])"
proof -
  obtain r w0 where rd0: "readFileSync E m w = (r, w0)"
    by (cases "readFileSync E m w")
  then have w0: "w0 = w" and np: "r \<noteq> Pending"
    using readFileSync_world by blast+
  show ?thesis
  proof (cases r)
    case (Throw e0)
    then have rd: "readFileSync E m w = (Throw e0, w)"
      using rd0 w0 by simp
    have run: "onDidCreate E inboxPath m w = on_error E m e0 w"
      by (rule onDidCreate_unreadable [OF rd])
    show ?thesis
    proof (cases "error_text e0")
      case (Inl e1)
      then show ?thesis
        using rd by (auto simp: run on_error_run new_events_def)
    next
      case (Inr t)
      then show ?thesis
        by (simp add: run on_error_def fst_cleanup settled_cleanup)
    qed
  next
    case Pending
    with np show ?thesis by simp
  next
    case (Return content)
    then have rd: "readFileSync E m w = (Return content, w)"
      using rd0 w0 by simp
    show ?thesis
    proof (cases "length (split BAR (trim content)) < 3")
      case True
      then show ?thesis
        by (simp add: onDidCreate_malformed [OF rd] fst_cleanup settled_cleanup)
    next
      case False
      then obtain sid mode rest where parts: "split BAR (trim content) = sid # mode # rest"
        and rest: "rest \<noteq> []"
        using three_or_more [of "split BAR (trim content)"] by blast
      show ?thesis
      proof (cases "sid = [] \<or> mode = [] \<or> join BAR rest = []")
        case True
        then show ?thesis
          by (simp add: onDidCreate_empty_field [OF rd parts rest] fst_cleanup settled_cleanup)
      next
        case False
        obtain pr where pr: "readContextProbe E inboxPath w = (Return pr, w)"
          using readContextProbe_result by blast
        note run = onDidCreate_valid [OF rd parts rest _ _ _ pr]
        have "(\<exists>w1. onDidCreate E inboxPath m w =
              io_catch (dispatch E m sid mode (join BAR rest)) (on_error E m) w1
            \<and> (trace w1 = trace w \<or> (\<exists>c. trace w1 = trace w @ [FsWrite (warnFile m) c])))
          \<or> (fst (onDidCreate E inboxPath m w) = Return ()
            \<and> settled m (new_events w (snd (onDidCreate E inboxPath m w))))"
        proof (cases pr)
          case None
          then show ?thesis
            using False by (auto simp: run)
        next
          case (Some p)
          then show ?thesis
            using False trace_writeWarn [of E m _ w]
            by (auto simp: run fst_cleanup settled_cleanup)
        qed
        then show ?thesis
        proof
          assume "\<exists>w1. onDidCreate E inboxPath m w =
              io_catch (dispatch E m sid mode (join BAR rest)) (on_error E m) w1
            \<and> (trace w1 = trace w \<or> (\<exists>c. trace w1 = trace w @ [FsWrite (warnFile m) c]))"
          then obtain w1 where go: "onDidCreate E inboxPath m w =
              io_catch (dispatch E m sid mode (join BAR rest)) (on_error E m) w1"
            and tr: "trace w1 = trace w \<or> (\<exists>c. trace w1 = trace w @ [FsWrite (warnFile m) c])"
            by blast
          show ?thesis
            unfolding go
            using caught_dispatch_settled [OF _ tr, of E sid mode "join BAR rest"]
              caught_dispatch_thrown [OF _ tr, of E sid mode "join BAR rest" e]
              caught_dispatch_throw [of E m sid mode "join BAR rest" w1 e]
            by blast
        next
          assume "fst (onDidCreate E inboxPath m w) = Return ()
            \<and> settled m (new_events w (snd (onDidCreate E inboxPath m w)))"
          then show ?thesis by simp
        qed
      qed
    qed
  qed
qed

lemma no_probe:
  "files w (path_join inboxPath (S ''context.probe'')) = None \<Longrightarrow>
   readContextProbe E inboxPath w = (Return None, w)"
  by (simp add: readContextProbe_def io_catch_def io_bind_def existsSync_def io_return_def Let_def)

lemma files_inbox_with: "files (inbox_with fs) = map_of fs"
  by (simp add: inbox_with_def)

text \<open>
  C1. When a run returns, its events hold exactly one write of the \<open>.ack\<close> or
  \<open>.err\<close> file and exactly one unlink, that of the message file, and they are the last
  two events, in this order. \<open>_cleanup\<close> itself always returns and always attempts
  both, the write first, whatever the write and the unlink throw: no failure of theirs
  leaves \<open>_cleanup\<close>, hence none leaves the handler. The handler throws only when
  building the reason in its \<open>catch\<close> throws, for a value thrown by reading the message
  file or by a host command; such a run has attempted no write of the \<open>.ack\<close> or
  \<open>.err\<close> file and no unlink.
\<close>

theorem C1_one_outcome_write_one_unlink:
  "(fst (onDidCreate E inboxPath msgFile w) = Return () \<longrightarrow>
        length (filter (is_outcome_write msgFile)
          (new_events w (snd (onDidCreate E inboxPath msgFile w)))) = 1
      \<and> filter is_unlink (new_events w (snd (onDidCreate E inboxPath msgFile w))) =
          [FsUnlink msgFile]
      \<and> (\<exists>pre out content.
            new_events w (snd (onDidCreate E inboxPath msgFile w)) =
              pre @ [FsWrite out content, FsUnlink msgFile]
          \<and> (out = ackFile msgFile \<or> out = errFile msgFile)))
   \<and> (\<forall>e. fst (onDidCreate E inboxPath msgFile w) = Throw e \<longrightarrow>
        (\<exists>e0. error_text e0 = Inl e
           \<and> (readFileSync E msgFile w = (Throw e0, w) \<or> (\<exists>w1 c. host E w1 c = Rejects e0)))
      \<and> filter (is_outcome_write msgFile)
          (new_events w (snd (onDidCreate E inboxPath msgFile w))) = []
      \<and> filter is_unlink (new_events w (snd (onDidCreate E inboxPath msgFile w))) = [])
   \<and> fst (cleanup E msgFile outFile text w) = Return ()
   \<and> trace (snd (cleanup E msgFile outFile text w)) =
       trace w @ [FsWrite outFile text, FsUnlink msgFile]"
  using onDidCreate_shape [of E inboxPath msgFile w]
    settled_counts [of msgFile "new_events w (snd (onDidCreate E inboxPath msgFile w))"]
  by (simp add: fst_cleanup trace_cleanup)

lemma host_quiet: "host quiet_env w c = Resolves"
  by (simp add: quiet_env_def)

lemma host_readonly: "host readonly_env w c = Resolves"
  by (simp add: readonly_env_def quiet_env_def)

lemma trace_inbox_with: "trace (inbox_with fs) = []"
  by (simp add: inbox_with_def)

lemma now_quiet: "now quiet_env = S ''2026-02-20T13:20:38.533Z''"
  by (simp add: quiet_env_def)

lemma now_readonly: "now readonly_env = S ''2026-02-20T13:20:38.533Z''"
  by (simp add: readonly_env_def quiet_env_def)

lemma rejecting_read:
  "map_of fs p = Some c \<Longrightarrow>
   readFileSync rejecting_env p (inbox_with fs) = (Return c, inbox_with fs)"
  by (simp add: readFileSync_def rejecting_env_def quiet_env_def inbox_with_def)

lemma host_rejecting: "host rejecting_env w c = Rejects unprintable"
  by (simp add: rejecting_env_def)

lemma error_text_unprintable:
  "error_text unprintable = Inl (type_error (S ''Cannot convert object to primitive value''))"
  by (simp add: error_text_def unprintable_def)

theorem C1_one_outcome_write_one_unlink_witness:
  "fst (onDidCreate readonly_env (S ''/in'') (S ''/in/1.msg'')
        (inbox_with [(S ''/in/1.msg'', S ''abc|send|hello'')])) = Return ()
   \<and> trace (snd (onDidCreate readonly_env (S ''/in'') (S ''/in/1.msg'')
        (inbox_with [(S ''/in/1.msg'', S ''abc|send|hello'')]))) =
       [Exec (ChatOpen (S ''hello'') False),
        FsWrite (S ''/in/1.ack'')
          (S ''sent sessionId='' @ S ''abc'' @ S ''... at '' @ S ''2026-02-20T13:20:38.533Z''),
        FsUnlink (S ''/in/1.msg'')]
   \<and> length (filter (is_outcome_write (S ''/in/1.msg''))
        (new_events (inbox_with [(S ''/in/1.msg'', S ''abc|send|hello'')])
          (snd (onDidCreate readonly_env (S ''/in'') (S ''/in/1.msg'')
            (inbox_with [(S ''/in/1.msg'', S ''abc|send|hello'')]))))) = 1
   \<and> filter is_unlink
        (new_events (inbox_with [(S ''/in/1.msg'', S ''abc|send|hello'')])
          (snd (onDidCreate readonly_env (S ''/in'') (S ''/in/1.msg'')
            (inbox_with [(S ''/in/1.msg'', S ''abc|send|hello'')])))) = [FsUnlink (S ''/in/1.msg'')]
   \<and> fst (onDidCreate rejecting_env (S ''/in'') (S ''/in/1.msg'')
        (inbox_with [(S ''/in/1.msg'', S ''abc|send|hello'')])) =
       Throw (type_error (S ''Cannot convert object to primitive value''))
   \<and> trace (snd (onDidCreate rejecting_env (S ''/in'') (S ''/in/1.msg'')
        (inbox_with [(S ''/in/1.msg'', S ''abc|send|hello'')]))) =
       [Exec (ChatOpen (S ''hello'') False)]
   \<and> filter (is_outcome_write (S ''/in/1.msg''))
        (new_events (inbox_with [(S ''/in/1.msg'', S ''abc|send|hello'')])
          (snd (onDidCreate rejecting_env (S ''/in'') (S ''/in/1.msg'')
            (inbox_with [(S ''/in/1.msg'', S ''abc|send|hello'')])))) = []
   \<and> filter is_unlink
        (new_events (inbox_with [(S ''/in/1.msg'', S ''abc|send|hello'')])
          (snd (onDidCreate rejecting_env (S ''/in'') (S ''/in/1.msg'')
            (inbox_with [(S ''/in/1.msg'', S ''abc|send|hello'')])))) = []"
proof -
  let ?w = "inbox_with [(S ''/in/1.msg'', S ''abc|send|hello'')]"
  have rd: "readFileSync readonly_env (S ''/in/1.msg'') ?w = (Return (S ''abc|send|hello''), ?w)"
    by (rule readonly_read) simp
  have rd2: "readFileSync rejecting_env (S ''/in/1.msg'') ?w = (Return (S ''abc|send|hello''), ?w)"
    by (rule rejecting_read) simp
  have parts: "split BAR (trim (S ''abc|send|hello'')) = S ''abc'' # S ''send'' # [S ''hello'']"
    by (simp add: S_def trim_def is_space_def is_line_terminator_def BAR_def)
  have np: "readContextProbe E (S ''/in'') ?w = (Return None, ?w)" for E
    by (rule no_probe) (simp add: files_inbox_with example_paths, simp add: S_def)
  have ne: "S ''abc'' \<noteq> []" "S ''send'' \<noteq> []" "join BAR [S ''hello''] \<noteq> []"
    by (simp_all add: S_def)
  have sub: "substring0 (S ''abc'') 8 = S ''abc''"
    by (simp add: substring0_def S_def)
  have run: "onDidCreate readonly_env (S ''/in'') (S ''/in/1.msg'') ?w =
      cleanup readonly_env (S ''/in/1.msg'') (S ''/in/1.ack'')
        (S ''sent sessionId='' @ S ''abc'' @ S ''... at '' @ S ''2026-02-20T13:20:38.533Z'')
        (emit (Exec (ChatOpen (S ''hello'') False)) ?w)"
    using onDidCreate_valid [OF rd parts _ ne np] sub
    by (simp add: run_send host_readonly now_readonly example_paths)
  have ret: "fst (onDidCreate readonly_env (S ''/in'') (S ''/in/1.msg'') ?w) = Return ()"
    by (simp add: run fst_cleanup)
  have tr: "trace (snd (onDidCreate readonly_env (S ''/in'') (S ''/in/1.msg'') ?w)) =
       [Exec (ChatOpen (S ''hello'') False),
        FsWrite (S ''/in/1.ack'')
          (S ''sent sessionId='' @ S ''abc'' @ S ''... at '' @ S ''2026-02-20T13:20:38.533Z''),
        FsUnlink (S ''/in/1.msg'')]"
    by (simp add: run trace_cleanup trace_emit trace_inbox_with)
  have run2: "onDidCreate rejecting_env (S ''/in'') (S ''/in/1.msg'') ?w =
      on_error rejecting_env (S ''/in/1.msg'') unprintable
        (emit (Exec (ChatOpen (S ''hello'') False)) ?w)"
    using onDidCreate_valid [OF rd2 parts _ ne np]
    by (simp add: run_send host_rejecting)
  have thr: "fst (onDidCreate rejecting_env (S ''/in'') (S ''/in/1.msg'') ?w) =
      Throw (type_error (S ''Cannot convert object to primitive value''))"
    by (simp add: run2 fst_on_error error_text_unprintable)
  have tr2: "trace (snd (onDidCreate rejecting_env (S ''/in'') (S ''/in/1.msg'') ?w)) =
      [Exec (ChatOpen (S ''hello'') False)]"
    by (simp add: run2 trace_on_error error_text_unprintable trace_emit trace_inbox_with)
  show ?thesis
    using C1_one_outcome_write_one_unlink [of readonly_env "S ''/in''" "S ''/in/1.msg''" ?w]
      C1_one_outcome_write_one_unlink [of rejecting_env "S ''/in''" "S ''/in/1.msg''" ?w]
      ret tr thr tr2
    by simp
qed

section \<open>The context probe\<close>

lemma probe_read:
  assumes "files w (path_join inboxPath (S ''context.probe'')) = Some content"
    and "read_fault E w (path_join inboxPath (S ''context.probe'')) = None"
  shows "readContextProbe E inboxPath w =
     (Return (Some \<lparr>contextPct = parseNum E content (S ''context_pct'') 0,
                     patch = parseNum E content (S ''patch'') 0,
                     rsc = parseNum E content (S ''rsc'') 0,
                     state = parseStr content (S ''state'')\<rparr>), w)"
  using assms
  by (simp add: readContextProbe_def io_catch_def io_bind_def existsSync_def io_return_def
      readFileSync_def Let_def)

lemma caught_dispatch_invokes:
  assumes "mode = S ''send'' \<or> mode = S ''stop-and-send'' \<or> mode = S ''queue''
      \<or> mode = S ''compact''"
  shows "\<exists>c evs. trace (snd (io_catch (dispatch E m sid mode msg) (on_error E m) w)) =
      trace w @ Exec c # evs"
  using assms
  by (auto simp: run_mode on_error_run trace_cleanup trace_emit
      split: host_result.splits sum.splits)

lemma caught_dispatch_not_blocked:
  assumes "trace w1 = trace w \<or> (\<exists>c. trace w1 = trace w @ [FsWrite (warnFile m) c])"
  shows "\<not> list_ex (is_block_write m)
     (new_events w (snd (io_catch (dispatch E m sid mode msg) (on_error E m) w1)))"
proof -
  obtain evs where
    evs: "trace (snd (io_catch (dispatch E m sid mode msg) (on_error E m) w1)) = trace w1 @ evs"
    and nb: "\<not> list_ex (is_block_write m) evs"
    using caught_dispatch_events [of E m sid mode msg w1] by blast
  from assms show ?thesis
    using evs nb by (auto simp: new_events_def out_files_distinct)
qed

lemma caught_dispatch_host_invoked:
  assumes "trace w1 = trace w \<or> (\<exists>c. trace w1 = trace w @ [FsWrite (warnFile m) c])"
    and "mode = S ''send'' \<or> mode = S ''stop-and-send'' \<or> mode = S ''queue''
      \<or> mode = S ''compact''"
  shows "host_invocations
     (new_events w (snd (io_catch (dispatch E m sid mode msg) (on_error E m) w1))) \<noteq> []"
proof -
  obtain c evs where
    evs: "trace (snd (io_catch (dispatch E m sid mode msg) (on_error E m) w1)) =
      trace w1 @ Exec c # evs"
    using caught_dispatch_invokes [OF assms(2)] by blast
  from assms(1) show ?thesis
    using evs by (auto simp: new_events_def)
qed

text \<open>
  C5. For a request with three non-empty fields, the run writes the \<open>.err\<close> file with
  the reason of the context block exactly when the probe was read, its \<open>contextPct\<close> is
  greater than 95 and the mode is \<open>steer\<close>. The blocked run returns; its only events
  are that write, whose reason prints the percentage, names the bound of 95% and
  recommends \<open>mode=compact\<close>, and the unlink of the message file, so it invokes no host
  command. In the modes \<open>send\<close>, \<open>stop-and-send\<close>, \<open>queue\<close> and \<open>compact\<close> a host
  command is invoked whatever the probe says.
\<close>

theorem C5_block_only_steer_above_95:
  assumes "readFileSync E msgFile w = (Return content, w)"
    and "split BAR (trim content) = sessionId # mode # messageParts"
    and "messageParts \<noteq> []"
    and "sessionId \<noteq> []" and "mode \<noteq> []" and "join BAR messageParts \<noteq> []"
    and "readContextProbe E inboxPath w = (Return pr, w)"
  shows "(list_ex (is_block_write msgFile) (new_events w (snd (onDidCreate E inboxPath msgFile w)))
        \<longleftrightarrow> (\<exists>p. pr = Some p \<and> num_gt (contextPct p) 95 \<and> mode = S ''steer''))
    \<and> (\<forall>p. pr = Some p \<and> num_gt (contextPct p) 95 \<and> mode = S ''steer'' \<longrightarrow>
          fst (onDidCreate E inboxPath msgFile w) = Return ()
        \<and> new_events w (snd (onDidCreate E inboxPath msgFile w)) =
            [FsWrite (errFile msgFile)
               (S ''mode=steer blocked: context_pct='' @ number_toString E (contextPct p)
                  @ S ''% > 95%. Use mode=compact first, then retry.''),
             FsUnlink msgFile]
        \<and> host_invocations (new_events w (snd (onDidCreate E inboxPath msgFile w))) = [])
    \<and> (mode = S ''send'' \<or> mode = S ''stop-and-send'' \<or> mode = S ''queue''
          \<or> mode = S ''compact'' \<longrightarrow>
        host_invocations (new_events w (snd (onDidCreate E inboxPath msgFile w))) \<noteq> [])"
proof -
  note run = onDidCreate_valid [OF assms]
  have blocked: "fst (onDidCreate E inboxPath msgFile w) = Return ()
        \<and> new_events w (snd (onDidCreate E inboxPath msgFile w)) =
            [FsWrite (errFile msgFile)
               (S ''mode=steer blocked: context_pct='' @ number_toString E (contextPct p)
                  @ S ''% > 95%. Use mode=compact first, then retry.''),
             FsUnlink msgFile]"
    if "pr = Some p" and "num_gt (contextPct p) 95" and "mode = S ''steer''" for p
    using that by (simp add: run fst_cleanup new_events_def trace_cleanup)
  have free: "\<not> list_ex (is_block_write msgFile)
      (new_events w (snd (onDidCreate E inboxPath msgFile w)))"
    if "\<not> (\<exists>p. pr = Some p \<and> num_gt (contextPct p) 95 \<and> mode = S ''steer'')"
  proof (cases pr)
    case None
    then show ?thesis
      using caught_dispatch_not_blocked [of w w msgFile E sessionId mode "join BAR messageParts"]
      by (simp add: run)
  next
    case (Some p)
    then show ?thesis
      using that
        caught_dispatch_not_blocked [of _ w msgFile E sessionId mode "join BAR messageParts"]
      by (auto simp: run trace_writeWarn)
  qed
  have invoked: "host_invocations (new_events w (snd (onDidCreate E inboxPath msgFile w))) \<noteq> []"
    if m: "mode = S ''send'' \<or> mode = S ''stop-and-send'' \<or> mode = S ''queue''
          \<or> mode = S ''compact''"
  proof -
    have ns: "mode \<noteq> S ''steer''"
      using m mode_literals by auto
    show ?thesis
    proof (cases pr)
      case None
      then show ?thesis
        using caught_dispatch_host_invoked [OF _ m, of w w msgFile E sessionId
            "join BAR messageParts"]
        by (simp add: run)
    next
      case (Some p)
      then show ?thesis
        using ns caught_dispatch_host_invoked [OF _ m, of _ w msgFile E sessionId
            "join BAR messageParts"]
        by (simp add: run trace_writeWarn)
    qed
  qed
  have prefix_self: "prefix (S ''mode=steer blocked: context_pct='')
      (S ''mode=steer blocked: context_pct='' @ x)" for x
    by simp
  show ?thesis
    using blocked free invoked by (auto simp: prefix_self)
qed


lemma parseFloat_quiet: "parseFloat quiet_env = decimal_parseFloat"
  by (simp add: quiet_env_def)

lemmas probe_eval = parseNum_def parseStr_def match_at_def is_line_terminator_def is_space_def
  is_digit_def DOT_def parseFloat_quiet decimal_parseFloat_def digits_value_def probe_text_def
  S_def

lemma example_probe_97:
  "readContextProbe quiet_env (S ''/in'') (inbox_probe request (S ''97'')) =
     (Return (Some \<lparr>contextPct = Num 97, patch = Num 10, rsc = Num 42, state = S ''running''\<rparr>),
      inbox_probe request (S ''97''))"
proof -
  have f: "files (inbox_probe request (S ''97'')) (path_join (S ''/in'') (S ''context.probe'')) =
      Some (probe_text (S ''97''))"
    by (simp add: inbox_probe_def files_inbox_with example_paths, simp add: S_def)
  have r: "read_fault quiet_env (inbox_probe request (S ''97''))
      (path_join (S ''/in'') (S ''context.probe'')) = None"
    by (simp add: quiet_env_def)
  have 1: "parseNum quiet_env (probe_text (S ''97'')) (S ''context_pct'') 0 = Num 97"
    by (simp add: probe_eval)
  have 2: "parseNum quiet_env (probe_text (S ''97'')) (S ''patch'') 0 = Num 10"
    by (simp add: probe_eval)
  have 3: "parseNum quiet_env (probe_text (S ''97'')) (S ''rsc'') 0 = Num 42"
    by (simp add: probe_eval)
  have 4: "parseStr (probe_text (S ''97'')) (S ''state'') = S ''running''"
    by (simp add: probe_eval)
  show ?thesis
    by (simp add: probe_read [OF f r] 1 2 3 4)
qed

lemma example_probe_85:
  "readContextProbe quiet_env (S ''/in'') (inbox_probe request (S ''85'')) =
     (Return (Some \<lparr>contextPct = Num 85, patch = Num 10, rsc = Num 42, state = S ''running''\<rparr>),
      inbox_probe request (S ''85''))"
proof -
  have f: "files (inbox_probe request (S ''85'')) (path_join (S ''/in'') (S ''context.probe'')) =
      Some (probe_text (S ''85''))"
    by (simp add: inbox_probe_def files_inbox_with example_paths, simp add: S_def)
  have r: "read_fault quiet_env (inbox_probe request (S ''85''))
      (path_join (S ''/in'') (S ''context.probe'')) = None"
    by (simp add: quiet_env_def)
  have 1: "parseNum quiet_env (probe_text (S ''85'')) (S ''context_pct'') 0 = Num 85"
    by (simp add: probe_eval)
  have 2: "parseNum quiet_env (probe_text (S ''85'')) (S ''patch'') 0 = Num 10"
    by (simp add: probe_eval)
  have 3: "parseNum quiet_env (probe_text (S ''85'')) (S ''rsc'') 0 = Num 42"
    by (simp add: probe_eval)
  have 4: "parseStr (probe_text (S ''85'')) (S ''state'') = S ''running''"
    by (simp add: probe_eval)
  show ?thesis
    by (simp add: probe_read [OF f r] 1 2 3 4)
qed

lemma example_read_probe:
  "readFileSync quiet_env (S ''/in/1.msg'') (inbox_probe request pct) =
     (Return request, inbox_probe request pct)"
  unfolding inbox_probe_def by (rule quiet_read) simp

lemma new_events_inbox_probe: "new_events (inbox_probe request pct) w1 = trace w1"
  by (simp add: inbox_probe_def new_events_inbox)

lemma example_numbers:
  "number_toString quiet_env (Num 97) = S ''97''"
  "number_toString quiet_env (Num 85) = S ''85''"
  "number_toString quiet_env (Num 10) = S ''10''"
  by (simp_all add: quiet_env_def example_number_toString_def nat_toString.simps S_def)

lemma example_gt:
  "num_gt (Num 97) 95" "num_gt (Num 97) 80" "num_gt (Num 85) 80" "\<not> num_gt (Num 85) 95"
  by (simp_all add: num_gt_def)

lemma example_split_mode:
  "split BAR (trim (S ''abc|steer|hello'')) = S ''abc'' # S ''steer'' # [S ''hello'']"
  "split BAR (trim (S ''abc|send|hello'')) = S ''abc'' # S ''send'' # [S ''hello'']"
  "split BAR (trim (S ''abc|stop-and-send|hello'')) = S ''abc'' # S ''stop-and-send'' # [S ''hello'']"
  "split BAR (trim (S ''abc|shout|hello'')) = S ''abc'' # S ''shout'' # [S ''hello'']"
  "split BAR (trim (S ''ZZZZZZZZZZ|compact|hello'')) = S ''ZZZZZZZZZZ'' # S ''compact'' # [S ''hello'']"
  by (simp_all add: S_def trim_def is_space_def is_line_terminator_def BAR_def)

lemma example_nonempty:
  "S ''abc'' \<noteq> []" "S ''steer'' \<noteq> []" "S ''send'' \<noteq> []" "S ''stop-and-send'' \<noteq> []"
  "S ''shout'' \<noteq> []" "S ''compact'' \<noteq> []" "S ''ZZZZZZZZZZ'' \<noteq> []" "join BAR [S ''hello''] \<noteq> []"
  by (simp_all add: S_def)

theorem C5_block_only_steer_above_95_witness:
  "readFileSync quiet_env (S ''/in/1.msg'') (inbox_probe (S ''abc|steer|hello'') (S ''97'')) =
     (Return (S ''abc|steer|hello''), inbox_probe (S ''abc|steer|hello'') (S ''97''))
   \<and> split BAR (trim (S ''abc|steer|hello'')) = S ''abc'' # S ''steer'' # [S ''hello'']
   \<and> [S ''hello''] \<noteq> [] \<and> S ''abc'' \<noteq> [] \<and> S ''steer'' \<noteq> [] \<and> join BAR [S ''hello''] \<noteq> []
   \<and> readContextProbe quiet_env (S ''/in'') (inbox_probe (S ''abc|steer|hello'') (S ''97'')) =
       (Return (Some \<lparr>contextPct = Num 97, patch = Num 10, rsc = Num 42, state = S ''running''\<rparr>),
        inbox_probe (S ''abc|steer|hello'') (S ''97''))
   \<and> num_gt (Num 97) 95
   \<and> list_ex (is_block_write (S ''/in/1.msg''))
       (trace (snd (onDidCreate quiet_env (S ''/in'') (S ''/in/1.msg'')
          (inbox_probe (S ''abc|steer|hello'') (S ''97'')))))
   \<and> fst (onDidCreate quiet_env (S ''/in'') (S ''/in/1.msg'')
          (inbox_probe (S ''abc|steer|hello'') (S ''97''))) = Return ()
   \<and> trace (snd (onDidCreate quiet_env (S ''/in'') (S ''/in/1.msg'')
          (inbox_probe (S ''abc|steer|hello'') (S ''97'')))) =
       [FsWrite (S ''/in/1.err'')
          (S ''mode=steer blocked: context_pct='' @ S ''97''
             @ S ''% > 95%. Use mode=compact first, then retry.''),
        FsUnlink (S ''/in/1.msg'')]
   \<and> host_invocations (trace (snd (onDidCreate quiet_env (S ''/in'') (S ''/in/1.msg'')
          (inbox_probe (S ''abc|steer|hello'') (S ''97''))))) = []"
  using C5_block_only_steer_above_95 [OF example_read_probe example_split_mode(1) _
      example_nonempty(1) example_nonempty(2) example_nonempty(8) example_probe_97]
    example_read_probe [of "S ''abc|steer|hello''" "S ''97''"]
    example_probe_97 [of "S ''abc|steer|hello''"] example_nonempty example_split_mode(1)
  by (simp add: new_events_inbox_probe example_gt example_numbers example_paths)


section \<open>Warnings\<close>

lemma sublist_mid: "sublist x (a @ x @ b)"
  by (rule sublist_appendI)

lemma sublist_mid2: "sublist x (a @ b @ c @ x @ d)"
  using sublist_appendI [of x "a @ b @ c" d] by simp

lemma caught_dispatch_extends:
  "\<exists>evs. trace (snd (io_catch (dispatch E m sid mode msg) (on_error E m) w)) = trace w @ evs"
  using caught_dispatch_events [of E m sid mode msg w] by blast

lemma new_events_after:
  assumes "trace w1 = trace w @ pre" and "trace w2 = trace w1 @ evs"
  shows "new_events w w2 = pre @ new_events w1 w2"
  using assms by (simp add: new_events_def)

lemma new_events_after_warn:
  "new_events w (snd (io_catch (dispatch E m sid mode msg) (on_error E m)
       (snd (writeWarn E m c w)))) =
   FsWrite (warnFile m) c
     # new_events (snd (writeWarn E m c w))
         (snd (io_catch (dispatch E m sid mode msg) (on_error E m) (snd (writeWarn E m c w))))"
proof -
  obtain evs where "trace (snd (io_catch (dispatch E m sid mode msg) (on_error E m)
       (snd (writeWarn E m c w)))) = trace (snd (writeWarn E m c w)) @ evs"
    using caught_dispatch_extends by blast
  then show ?thesis
    using new_events_after [OF trace_writeWarn [of E m c w]] by simp
qed

text \<open>
  C6. For a request with three non-empty fields that is not blocked, when the probe was
  read and its \<open>contextPct\<close> is greater than 80, the first event of the run is the write
  of the \<open>.warn\<close> file, whose text prints the percentage and the patch count, and the
  rest of the run is the dispatch of the mode from the world after that write. In mode
  \<open>send\<close> with a host that resolves the command, the run returns and its events are the
  warning write, one \<open>workbench.action.chat.open\<close> with the message and
  \<open>isPartialQuery = false\<close>, the write of the \<open>.ack\<close> file and the unlink.
\<close>

theorem C6_warn_then_dispatch:
  assumes "readFileSync E msgFile w = (Return content, w)"
    and "split BAR (trim content) = sessionId # mode # messageParts"
    and "messageParts \<noteq> []"
    and "sessionId \<noteq> []" and "mode \<noteq> []" and "join BAR messageParts \<noteq> []"
    and "readContextProbe E inboxPath w = (Return (Some p), w)"
    and "\<not> (num_gt (contextPct p) 95 \<and> mode = S ''steer'')"
    and "num_gt (contextPct p) 80"
  shows "let warning = S ''context warning: context_pct='' @ number_toString E (contextPct p)
             @ S ''% > 80% (approaching compaction zone, patch=''
             @ number_toString E (patch p) @ S '')'';
           w1 = snd (writeWarn E msgFile warning w);
           message = join BAR messageParts
         in new_events w (snd (onDidCreate E inboxPath msgFile w)) =
              FsWrite (warnFile msgFile) warning
                # new_events w1
                    (snd (io_catch (dispatch E msgFile sessionId mode message)
                       (on_error E msgFile) w1))
          \<and> fst (onDidCreate E inboxPath msgFile w) =
              fst (io_catch (dispatch E msgFile sessionId mode message) (on_error E msgFile) w1)
          \<and> sublist (number_toString E (contextPct p)) warning
          \<and> sublist (number_toString E (patch p)) warning
          \<and> (mode = S ''send'' \<and> (\<forall>w2. host E w2 (ChatOpen message False) = Resolves) \<longrightarrow>
                fst (onDidCreate E inboxPath msgFile w) = Return ()
              \<and> new_events w (snd (onDidCreate E inboxPath msgFile w)) =
                  [FsWrite (warnFile msgFile) warning,
                   Exec (ChatOpen message False),
                   FsWrite (ackFile msgFile)
                     (S ''sent sessionId='' @ substring0 sessionId 8 @ S ''... at '' @ now E),
                   FsUnlink msgFile]
              \<and> host_invocations (new_events w (snd (onDidCreate E inboxPath msgFile w))) =
                  [ChatOpen message False])"
proof -
  let ?warning = "S ''context warning: context_pct='' @ number_toString E (contextPct p)
             @ S ''% > 80% (approaching compaction zone, patch=''
             @ number_toString E (patch p) @ S '')''"
  let ?w1 = "snd (writeWarn E msgFile ?warning w)"
  let ?message = "join BAR messageParts"
  have run: "onDidCreate E inboxPath msgFile w =
      io_catch (dispatch E msgFile sessionId mode ?message) (on_error E msgFile) ?w1"
    using assms(8,9) by (auto simp: onDidCreate_valid [OF assms(1-7)])
  have ev: "new_events w (snd (onDidCreate E inboxPath msgFile w)) =
      FsWrite (warnFile msgFile) ?warning
        # new_events ?w1
            (snd (io_catch (dispatch E msgFile sessionId mode ?message) (on_error E msgFile) ?w1))"
    by (simp only: run new_events_after_warn)
  have send: "fst (onDidCreate E inboxPath msgFile w) = Return ()
      \<and> new_events w (snd (onDidCreate E inboxPath msgFile w)) =
          [FsWrite (warnFile msgFile) ?warning,
           Exec (ChatOpen ?message False),
           FsWrite (ackFile msgFile)
             (S ''sent sessionId='' @ substring0 sessionId 8 @ S ''... at '' @ now E),
           FsUnlink msgFile]"
    if "mode = S ''send''" and "\<forall>w2. host E w2 (ChatOpen ?message False) = Resolves"
    using that
    by (simp add: run run_send fst_cleanup new_events_def trace_cleanup trace_emit
        trace_writeWarn)
  show ?thesis
    unfolding Let_def
    using ev run send by (auto simp: sublist_mid sublist_mid2)
qed


lemma example_substring:
  "substring0 (S ''abc'') 8 = S ''abc''"
  "substring0 (S ''ZZZZZZZZZZ'') 8 = S ''ZZZZZZZZ''"
  by (simp_all add: substring0_def S_def)

theorem C6_warn_then_dispatch_witness:
  "readFileSync quiet_env (S ''/in/1.msg'') (inbox_probe (S ''abc|send|hello'') (S ''85'')) =
     (Return (S ''abc|send|hello''), inbox_probe (S ''abc|send|hello'') (S ''85''))
   \<and> split BAR (trim (S ''abc|send|hello'')) = S ''abc'' # S ''send'' # [S ''hello'']
   \<and> [S ''hello''] \<noteq> [] \<and> S ''abc'' \<noteq> [] \<and> S ''send'' \<noteq> [] \<and> join BAR [S ''hello''] \<noteq> []
   \<and> readContextProbe quiet_env (S ''/in'') (inbox_probe (S ''abc|send|hello'') (S ''85'')) =
       (Return (Some \<lparr>contextPct = Num 85, patch = Num 10, rsc = Num 42, state = S ''running''\<rparr>),
        inbox_probe (S ''abc|send|hello'') (S ''85''))
   \<and> \<not> (num_gt (Num 85) 95 \<and> S ''send'' = S ''steer'')
   \<and> num_gt (Num 85) 80
   \<and> (\<forall>w2. host quiet_env w2 (ChatOpen (S ''hello'') False) = Resolves)
   \<and> fst (onDidCreate quiet_env (S ''/in'') (S ''/in/1.msg'')
          (inbox_probe (S ''abc|send|hello'') (S ''85''))) = Return ()
   \<and> trace (snd (onDidCreate quiet_env (S ''/in'') (S ''/in/1.msg'')
          (inbox_probe (S ''abc|send|hello'') (S ''85'')))) =
       [FsWrite (S ''/in/1.warn'')
          (S ''context warning: context_pct='' @ S ''85''
             @ S ''% > 80% (approaching compaction zone, patch='' @ S ''10'' @ S '')''),
        Exec (ChatOpen (S ''hello'') False),
        FsWrite (S ''/in/1.ack'')
          (S ''sent sessionId='' @ S ''abc'' @ S ''... at '' @ S ''2026-02-20T13:20:38.533Z''),
        FsUnlink (S ''/in/1.msg'')]
   \<and> host_invocations (trace (snd (onDidCreate quiet_env (S ''/in'') (S ''/in/1.msg'')
          (inbox_probe (S ''abc|send|hello'') (S ''85''))))) = [ChatOpen (S ''hello'') False]"
proof -
  have nb: "\<not> (num_gt (contextPct \<lparr>contextPct = Num 85, patch = Num 10, rsc = Num 42,
      state = S ''running''\<rparr>) 95 \<and> S ''send'' = S ''steer'')"
    by (simp add: example_gt)
  have wn: "num_gt (contextPct \<lparr>contextPct = Num 85, patch = Num 10, rsc = Num 42,
      state = S ''running''\<rparr>) 80"
    by (simp add: example_gt)
  let ?w = "inbox_probe (S ''abc|send|hello'') (S ''85'')"
  let ?p = "\<lparr>contextPct = Num 85, patch = Num 10, rsc = Num 42, state = S ''running''\<rparr>"
  note inst = C6_warn_then_dispatch [OF example_read_probe example_split_mode(2) _
        example_nonempty(1) example_nonempty(3) example_nonempty(8) example_probe_85 nb wn,
        unfolded Let_def]
  have send: "fst (onDidCreate quiet_env (S ''/in'') (S ''/in/1.msg'') ?w) = Return ()
      \<and> new_events ?w (snd (onDidCreate quiet_env (S ''/in'') (S ''/in/1.msg'') ?w)) =
          [FsWrite (warnFile (S ''/in/1.msg''))
             (S ''context warning: context_pct='' @ number_toString quiet_env (contextPct ?p)
                @ S ''% > 80% (approaching compaction zone, patch=''
                @ number_toString quiet_env (patch ?p) @ S '')''),
           Exec (ChatOpen (join BAR [S ''hello'']) False),
           FsWrite (ackFile (S ''/in/1.msg''))
             (S ''sent sessionId='' @ substring0 (S ''abc'') 8 @ S ''... at '' @ now quiet_env),
           FsUnlink (S ''/in/1.msg'')]
      \<and> host_invocations
          (new_events ?w (snd (onDidCreate quiet_env (S ''/in'') (S ''/in/1.msg'') ?w))) =
          [ChatOpen (join BAR [S ''hello'']) False]"
    using inst host_quiet by blast
  show ?thesis
    using send example_read_probe [of "S ''abc|send|hello''" "S ''85''"]
      example_probe_85 [of "S ''abc|send|hello''"] example_nonempty example_split_mode(2)
      example_substring
    by (simp add: new_events_inbox_probe example_gt example_numbers example_paths
        host_quiet now_quiet)
qed

section \<open>Unrecognised modes\<close>

lemma supported_suffix:
  "suffix (S ''send, steer, stop-and-send, queue, compact'')
     (S ''Unknown mode=\"'' @ mode @ S ''\" '' @ EM_DASH
        @ S '' supported modes: send, steer, stop-and-send, queue, compact'')"
proof -
  have "S '' supported modes: send, steer, stop-and-send, queue, compact'' =
      S '' supported modes: '' @ S ''send, steer, stop-and-send, queue, compact''"
    by (simp add: S_def)
  then have "S ''Unknown mode=\"'' @ mode @ S ''\" '' @ EM_DASH
        @ S '' supported modes: send, steer, stop-and-send, queue, compact'' =
      (S ''Unknown mode=\"'' @ mode @ S ''\" '' @ EM_DASH @ S '' supported modes: '')
        @ S ''send, steer, stop-and-send, queue, compact''"
    by simp
  then show ?thesis
    by (rule suffixI)
qed

text \<open>
  C8. For a request with three non-empty fields whose mode is none of \<open>send\<close>,
  \<open>steer\<close>, \<open>stop-and-send\<close>, \<open>queue\<close> and \<open>compact\<close>, the run returns, invokes no
  host command, and ends with the write of the \<open>.err\<close> file and the unlink of the
  message file; before them there is nothing or one write of the \<open>.warn\<close> file. The
  reason is \<open>Unknown mode="M" ... supported modes: send, steer, stop-and-send, queue,
  compact\<close> with the mode of the request for \<open>M\<close>.
\<close>

theorem C8_unknown_mode:
  assumes "readFileSync E msgFile w = (Return content, w)"
    and "split BAR (trim content) = sessionId # mode # messageParts"
    and "messageParts \<noteq> []"
    and "sessionId \<noteq> []" and "mode \<noteq> []" and "join BAR messageParts \<noteq> []"
    and "mode \<noteq> S ''send''" and "mode \<noteq> S ''steer''" and "mode \<noteq> S ''stop-and-send''"
    and "mode \<noteq> S ''queue''" and "mode \<noteq> S ''compact''"
  shows "let reason = S ''Unknown mode=\"'' @ mode @ S ''\" '' @ EM_DASH
             @ S '' supported modes: send, steer, stop-and-send, queue, compact''
         in fst (onDidCreate E inboxPath msgFile w) = Return ()
          \<and> host_invocations (new_events w (snd (onDidCreate E inboxPath msgFile w))) = []
          \<and> (\<exists>pre. new_events w (snd (onDidCreate E inboxPath msgFile w)) =
                 pre @ [FsWrite (errFile msgFile) reason, FsUnlink msgFile]
               \<and> (pre = [] \<or> (\<exists>c. pre = [FsWrite (warnFile msgFile) c])))
          \<and> sublist mode reason
          \<and> suffix (S ''send, steer, stop-and-send, queue, compact'') reason"
proof -
  obtain pr where pr: "readContextProbe E inboxPath w = (Return pr, w)"
    using readContextProbe_result by blast
  note run = onDidCreate_valid [OF assms(1-6) pr]
  note unknown = run_unknown [OF assms(7-11)]
  let ?reason = "S ''Unknown mode=\"'' @ mode @ S ''\" '' @ EM_DASH
             @ S '' supported modes: send, steer, stop-and-send, queue, compact''"
  have ev: "fst (onDidCreate E inboxPath msgFile w) = Return ()
      \<and> (new_events w (snd (onDidCreate E inboxPath msgFile w)) =
            [FsWrite (errFile msgFile) ?reason, FsUnlink msgFile]
         \<or> (\<exists>c. new_events w (snd (onDidCreate E inboxPath msgFile w)) =
            [FsWrite (warnFile msgFile) c, FsWrite (errFile msgFile) ?reason, FsUnlink msgFile]))"
  proof (cases pr)
    case None
    then show ?thesis
      by (simp add: run unknown fst_cleanup new_events_def trace_cleanup)
  next
    case (Some p)
    then show ?thesis
      using assms(8)
      by (simp add: run unknown fst_cleanup new_events_def trace_cleanup trace_writeWarn)
  qed
  have inv: "host_invocations (new_events w (snd (onDidCreate E inboxPath msgFile w))) = []"
    using ev by auto
  have shape: "\<exists>pre. new_events w (snd (onDidCreate E inboxPath msgFile w)) =
                 pre @ [FsWrite (errFile msgFile) ?reason, FsUnlink msgFile]
               \<and> (pre = [] \<or> (\<exists>c. pre = [FsWrite (warnFile msgFile) c]))"
    using ev by auto
  show ?thesis
    unfolding Let_def
    using ev inv shape supported_suffix [of mode] by (simp add: sublist_mid)
qed

text \<open>
  C10. For a request with three non-empty fields and an unrecognised mode, when the probe
  was read and its \<open>contextPct\<close> is greater than 80, the run writes the \<open>.warn\<close> file
  and then the \<open>.err\<close> file with the reason \<open>Unknown mode\<close>, and unlinks the message
  file: a warning accompanies an error.
\<close>

theorem C10_warning_with_error:
  assumes "readFileSync E msgFile w = (Return content, w)"
    and "split BAR (trim content) = sessionId # mode # messageParts"
    and "messageParts \<noteq> []"
    and "sessionId \<noteq> []" and "mode \<noteq> []" and "join BAR messageParts \<noteq> []"
    and "mode \<noteq> S ''send''" and "mode \<noteq> S ''steer''" and "mode \<noteq> S ''stop-and-send''"
    and "mode \<noteq> S ''queue''" and "mode \<noteq> S ''compact''"
    and "readContextProbe E inboxPath w = (Return (Some p), w)"
    and "num_gt (contextPct p) 80"
  shows "fst (onDidCreate E inboxPath msgFile w) = Return ()
    \<and> new_events w (snd (onDidCreate E inboxPath msgFile w)) =
        [FsWrite (warnFile msgFile)
           (S ''context warning: context_pct='' @ number_toString E (contextPct p)
              @ S ''% > 80% (approaching compaction zone, patch=''
              @ number_toString E (patch p) @ S '')''),
         FsWrite (errFile msgFile)
           (S ''Unknown mode=\"'' @ mode @ S ''\" '' @ EM_DASH
              @ S '' supported modes: send, steer, stop-and-send, queue, compact''),
         FsUnlink msgFile]"
  using assms(8,13)
  by (simp add: onDidCreate_valid [OF assms(1-6) assms(12)] run_unknown [OF assms(7-11)]
      fst_cleanup new_events_def trace_cleanup trace_writeWarn)


lemma shout_unknown:
  "S ''shout'' \<noteq> S ''send''" "S ''shout'' \<noteq> S ''steer''" "S ''shout'' \<noteq> S ''stop-and-send''"
  "S ''shout'' \<noteq> S ''queue''" "S ''shout'' \<noteq> S ''compact''"
  by (simp_all add: S_def)

theorem C8_unknown_mode_witness:
  "readFileSync quiet_env (S ''/in/1.msg'') (inbox_with [(S ''/in/1.msg'', S ''abc|shout|hello'')])
     = (Return (S ''abc|shout|hello''), inbox_with [(S ''/in/1.msg'', S ''abc|shout|hello'')])
   \<and> split BAR (trim (S ''abc|shout|hello'')) = S ''abc'' # S ''shout'' # [S ''hello'']
   \<and> [S ''hello''] \<noteq> [] \<and> S ''abc'' \<noteq> [] \<and> S ''shout'' \<noteq> [] \<and> join BAR [S ''hello''] \<noteq> []
   \<and> S ''shout'' \<noteq> S ''send'' \<and> S ''shout'' \<noteq> S ''steer'' \<and> S ''shout'' \<noteq> S ''stop-and-send''
   \<and> S ''shout'' \<noteq> S ''queue'' \<and> S ''shout'' \<noteq> S ''compact''
   \<and> fst (onDidCreate quiet_env (S ''/in'') (S ''/in/1.msg'')
        (inbox_with [(S ''/in/1.msg'', S ''abc|shout|hello'')])) = Return ()
   \<and> host_invocations (trace (snd (onDidCreate quiet_env (S ''/in'') (S ''/in/1.msg'')
        (inbox_with [(S ''/in/1.msg'', S ''abc|shout|hello'')])))) = []
   \<and> (\<exists>pre. trace (snd (onDidCreate quiet_env (S ''/in'') (S ''/in/1.msg'')
        (inbox_with [(S ''/in/1.msg'', S ''abc|shout|hello'')]))) =
          pre @ [FsWrite (S ''/in/1.err'')
                   (S ''Unknown mode=\"'' @ S ''shout'' @ S ''\" '' @ EM_DASH
                      @ S '' supported modes: send, steer, stop-and-send, queue, compact''),
                 FsUnlink (S ''/in/1.msg'')]
        \<and> (pre = [] \<or> (\<exists>c. pre = [FsWrite (S ''/in/1.warn'') c])))"
proof -
  let ?w = "inbox_with [(S ''/in/1.msg'', S ''abc|shout|hello'')]"
  have rd: "readFileSync quiet_env (S ''/in/1.msg'') ?w = (Return (S ''abc|shout|hello''), ?w)"
    by (rule quiet_read) simp
  show ?thesis
    using C8_unknown_mode [OF rd example_split_mode(4) _ example_nonempty(1) example_nonempty(5)
        example_nonempty(8) shout_unknown, of "S ''/in''", unfolded Let_def]
      rd example_split_mode(4) example_nonempty shout_unknown
    by (simp add: new_events_inbox example_paths)
qed

theorem C10_warning_with_error_witness:
  "readFileSync quiet_env (S ''/in/1.msg'') (inbox_probe (S ''abc|shout|hello'') (S ''85'')) =
     (Return (S ''abc|shout|hello''), inbox_probe (S ''abc|shout|hello'') (S ''85''))
   \<and> split BAR (trim (S ''abc|shout|hello'')) = S ''abc'' # S ''shout'' # [S ''hello'']
   \<and> [S ''hello''] \<noteq> [] \<and> S ''abc'' \<noteq> [] \<and> S ''shout'' \<noteq> [] \<and> join BAR [S ''hello''] \<noteq> []
   \<and> S ''shout'' \<noteq> S ''send'' \<and> S ''shout'' \<noteq> S ''steer'' \<and> S ''shout'' \<noteq> S ''stop-and-send''
   \<and> S ''shout'' \<noteq> S ''queue'' \<and> S ''shout'' \<noteq> S ''compact''
   \<and> readContextProbe quiet_env (S ''/in'') (inbox_probe (S ''abc|shout|hello'') (S ''85'')) =
       (Return (Some \<lparr>contextPct = Num 85, patch = Num 10, rsc = Num 42, state = S ''running''\<rparr>),
        inbox_probe (S ''abc|shout|hello'') (S ''85''))
   \<and> num_gt (Num 85) 80
   \<and> fst (onDidCreate quiet_env (S ''/in'') (S ''/in/1.msg'')
          (inbox_probe (S ''abc|shout|hello'') (S ''85''))) = Return ()
   \<and> trace (snd (onDidCreate quiet_env (S ''/in'') (S ''/in/1.msg'')
          (inbox_probe (S ''abc|shout|hello'') (S ''85'')))) =
       [FsWrite (S ''/in/1.warn'')
          (S ''context warning: context_pct='' @ S ''85''
             @ S ''% > 80% (approaching compaction zone, patch='' @ S ''10'' @ S '')''),
        FsWrite (S ''/in/1.err'')
          (S ''Unknown mode=\"'' @ S ''shout'' @ S ''\" '' @ EM_DASH
             @ S '' supported modes: send, steer, stop-and-send, queue, compact''),
        FsUnlink (S ''/in/1.msg'')]"
proof -
  have wn: "num_gt (contextPct \<lparr>contextPct = Num 85, patch = Num 10, rsc = Num 42,
      state = S ''running''\<rparr>) 80"
    by (simp add: example_gt)
  show ?thesis
    using C10_warning_with_error [OF example_read_probe example_split_mode(4) _
        example_nonempty(1) example_nonempty(5) example_nonempty(8) shout_unknown
        example_probe_85 wn]
      example_read_probe [of "S ''abc|shout|hello''" "S ''85''"]
      example_probe_85 [of "S ''abc|shout|hello''"] example_nonempty example_split_mode(4)
      shout_unknown
    by (simp add: new_events_inbox_probe example_gt example_numbers example_paths)
qed



section \<open>The order of the host steps\<close>

lemma caught_stop_and_send_steps:
  "prefix (host_steps (new_events w (snd (io_catch (dispatch E m sid (S ''stop-and-send'') msg)
       (on_error E m) w))))
     [Exec ChatCancel, Delay 300, Exec (ChatOpen msg False)]
   \<and> host_steps (new_events w (snd (io_catch (dispatch E m sid (S ''stop-and-send'') msg)
       (on_error E m) w))) \<noteq> []
   \<and> (host E w ChatCancel = Resolves \<longrightarrow>
        host_steps (new_events w (snd (io_catch (dispatch E m sid (S ''stop-and-send'') msg)
          (on_error E m) w))) = [Exec ChatCancel, Delay 300, Exec (ChatOpen msg False)])"
  by (simp add: run_stop_and_send on_error_run new_events_def trace_cleanup trace_emit
      split: host_result.splits sum.splits)

lemma caught_steer_delays:
  "set (delays (new_events w (snd (io_catch (dispatch E m sid (S ''steer'') msg)
       (on_error E m) w)))) \<subseteq> {100}
   \<and> (host E w (ChatOpen msg True) = Resolves \<longrightarrow>
        delays (new_events w (snd (io_catch (dispatch E m sid (S ''steer'') msg)
          (on_error E m) w))) = [100])"
  by (simp add: run_steer on_error_run new_events_def trace_cleanup trace_emit
      split: host_result.splits sum.splits)


text \<open>
  C7. For a request with three non-empty fields and mode \<open>stop-and-send\<close>, the host
  commands and delays of the run are, in this order, \<open>workbench.action.chat.cancel\<close>, a
  delay of 300 ms and \<open>workbench.action.chat.open\<close> with the message and
  \<open>isPartialQuery = false\<close>: always a non-empty initial part of this sequence, and all
  of it when the cancel resolves. Every delay of a dispatch in mode \<open>steer\<close> is 100 ms,
  which is less than 300 ms.
\<close>

theorem C7_stop_and_send_order:
  assumes "readFileSync E msgFile w = (Return content, w)"
    and "split BAR (trim content) = sessionId # S ''stop-and-send'' # messageParts"
    and "messageParts \<noteq> []"
    and "sessionId \<noteq> []" and "join BAR messageParts \<noteq> []"
  shows "let message = join BAR messageParts;
             steps = host_steps (new_events w (snd (onDidCreate E inboxPath msgFile w)))
         in prefix steps [Exec ChatCancel, Delay 300, Exec (ChatOpen message False)]
          \<and> steps \<noteq> []
          \<and> ((\<forall>w1. host E w1 ChatCancel = Resolves) \<longrightarrow>
                steps = [Exec ChatCancel, Delay 300, Exec (ChatOpen message False)])
          \<and> (\<forall>w2 sid2 msg2.
                set (delays (new_events w2 (snd (io_catch
                  (dispatch E msgFile sid2 (S ''steer'') msg2) (on_error E msgFile) w2))))
                  \<subseteq> {100}
              \<and> (host E w2 (ChatOpen msg2 True) = Resolves \<longrightarrow>
                   delays (new_events w2 (snd (io_catch
                     (dispatch E msgFile sid2 (S ''steer'') msg2) (on_error E msgFile) w2)))
                   = [100]))
          \<and> (100 :: nat) < 300"
proof -
  obtain pr where pr: "readContextProbe E inboxPath w = (Return pr, w)"
    using readContextProbe_result by blast
  have ne: "S ''stop-and-send'' \<noteq> []"
    by (simp add: S_def)
  note run = onDidCreate_valid [OF assms(1-4) ne assms(5) pr]
  let ?message = "join BAR messageParts"
  let ?go = "io_catch (dispatch E msgFile sessionId (S ''stop-and-send'') ?message)
      (on_error E msgFile)"
  have "\<exists>w1. host_steps (new_events w (snd (onDidCreate E inboxPath msgFile w))) =
      host_steps (new_events w1 (snd (?go w1)))"
  proof (cases pr)
    case None
    then have "onDidCreate E inboxPath msgFile w = ?go w"
      by (simp add: run)
    then show ?thesis by auto
  next
    case (Some p)
    show ?thesis
    proof (cases "num_gt (contextPct p) 80")
      case True
      let ?warning = "S ''context warning: context_pct='' @ number_toString E (contextPct p)
             @ S ''% > 80% (approaching compaction zone, patch=''
             @ number_toString E (patch p) @ S '')''"
      let ?w1 = "snd (writeWarn E msgFile ?warning w)"
      have go: "onDidCreate E inboxPath msgFile w = ?go ?w1"
        using Some True by (simp add: run mode_literals)
      have "host_steps (new_events w (snd (?go ?w1))) =
          host_steps (new_events ?w1 (snd (?go ?w1)))"
        by (simp only: new_events_after_warn host_steps.simps)
      then show ?thesis
        unfolding go by (rule exI)
    next
      case False
      then have "onDidCreate E inboxPath msgFile w = ?go w"
        using Some by (simp add: run mode_literals)
      then show ?thesis by auto
    qed
  qed
  then obtain w1 where steps:
    "host_steps (new_events w (snd (onDidCreate E inboxPath msgFile w))) =
      host_steps (new_events w1 (snd (?go w1)))"
    by blast
  have sas: "prefix (host_steps (new_events w1 (snd (?go w1))))
        [Exec ChatCancel, Delay 300, Exec (ChatOpen ?message False)]"
    "host_steps (new_events w1 (snd (?go w1))) \<noteq> []"
    "host E w1 ChatCancel = Resolves \<Longrightarrow>
        host_steps (new_events w1 (snd (?go w1))) =
          [Exec ChatCancel, Delay 300, Exec (ChatOpen ?message False)]"
    using caught_stop_and_send_steps [of w1 E msgFile sessionId ?message] by blast+
  show ?thesis
    unfolding Let_def steps
    using sas caught_steer_delays by (intro conjI allI impI) simp_all
qed


theorem C7_stop_and_send_order_witness:
  "readFileSync quiet_env (S ''/in/1.msg'')
       (inbox_with [(S ''/in/1.msg'', S ''abc|stop-and-send|hello'')])
     = (Return (S ''abc|stop-and-send|hello''),
        inbox_with [(S ''/in/1.msg'', S ''abc|stop-and-send|hello'')])
   \<and> split BAR (trim (S ''abc|stop-and-send|hello'')) =
       S ''abc'' # S ''stop-and-send'' # [S ''hello'']
   \<and> [S ''hello''] \<noteq> [] \<and> S ''abc'' \<noteq> [] \<and> join BAR [S ''hello''] \<noteq> []
   \<and> (\<forall>w1. host quiet_env w1 ChatCancel = Resolves)
   \<and> host_steps (trace (snd (onDidCreate quiet_env (S ''/in'') (S ''/in/1.msg'')
        (inbox_with [(S ''/in/1.msg'', S ''abc|stop-and-send|hello'')])))) =
       [Exec ChatCancel, Delay 300, Exec (ChatOpen (S ''hello'') False)]
   \<and> host quiet_env (inbox_with []) (ChatOpen (S ''hello'') True) = Resolves
   \<and> delays (trace (snd (io_catch
        (dispatch quiet_env (S ''/in/1.msg'') (S ''abc'') (S ''steer'') (S ''hello''))
        (on_error quiet_env (S ''/in/1.msg'')) (inbox_with [])))) = [100]"
proof -
  let ?w = "inbox_with [(S ''/in/1.msg'', S ''abc|stop-and-send|hello'')]"
  have rd: "readFileSync quiet_env (S ''/in/1.msg'') ?w =
      (Return (S ''abc|stop-and-send|hello''), ?w)"
    by (rule quiet_read) simp
  note inst = C7_stop_and_send_order [OF rd example_split_mode(3) _ example_nonempty(1)
      example_nonempty(8), of "S ''/in''", unfolded Let_def]
  have 1: "host_steps (new_events ?w (snd (onDidCreate quiet_env (S ''/in'') (S ''/in/1.msg'') ?w)))
      = [Exec ChatCancel, Delay 300, Exec (ChatOpen (join BAR [S ''hello'']) False)]"
    using inst host_quiet by blast
  have 2: "delays (new_events (inbox_with []) (snd (io_catch
        (dispatch quiet_env (S ''/in/1.msg'') (S ''abc'') (S ''steer'') (S ''hello''))
        (on_error quiet_env (S ''/in/1.msg'')) (inbox_with [])))) = [100]"
    using inst host_quiet by blast
  show ?thesis
    using 1 2 rd example_split_mode(3) example_nonempty
    by (simp add: new_events_inbox host_quiet)
qed


section \<open>The text of an acknowledgement\<close>

lemma caught_dispatch_ack:
  assumes "FsWrite (ackFile m) c \<in>
      set (new_events w (snd (io_catch (dispatch E m sid mode msg) (on_error E m) w)))"
  shows "(mode = S ''send''
        \<and> c = S ''sent sessionId='' @ substring0 sid 8 @ S ''... at '' @ now E)
     \<or> (mode = S ''steer''
        \<and> c = S ''steered (steerWithMessage) sessionId='' @ substring0 sid 8
              @ S ''... at '' @ now E)
     \<or> (mode = S ''stop-and-send''
        \<and> c = S ''stop-and-send sessionId='' @ substring0 sid 8 @ S ''... at '' @ now E)
     \<or> (mode = S ''queue''
        \<and> c = S ''queued (queueMessage) sessionId='' @ substring0 sid 8
              @ S ''... at '' @ now E)
     \<or> (mode = S ''compact''
        \<and> c = S ''compact: opened context usage panel at '' @ now E
              @ S ''. No direct compact command in VS Code '' @ EM_DASH
              @ S '' press compact in the panel.'')"
proof -
  consider "mode = S ''send''" | "mode = S ''steer''" | "mode = S ''stop-and-send''"
    | "mode = S ''queue''" | "mode = S ''compact''"
    | "mode \<noteq> S ''send''" "mode \<noteq> S ''steer''" "mode \<noteq> S ''stop-and-send''"
      "mode \<noteq> S ''queue''" "mode \<noteq> S ''compact''"
    by blast
  then show ?thesis
    using assms
    by cases
      (simp_all add: run_mode run_unknown on_error_run new_events_def trace_cleanup trace_emit
        out_files_distinct mode_literals split: host_result.splits sum.splits)
qed

lemma ack_prefixes:
  "prefix (S ''sent'') (S ''sent sessionId='' @ x)"
  "prefix (S ''steer'') (S ''steered (steerWithMessage) sessionId='' @ x)"
  "prefix (S ''stop-and-send'') (S ''stop-and-send sessionId='' @ x)"
  "prefix (S ''queue'') (S ''queued (queueMessage) sessionId='' @ x)"
  "prefix (S ''compact'') (S ''compact: opened context usage panel at '' @ x)"
  by (simp_all add: S_def)

lemma sublist_end: "sublist x (a @ b @ c @ x)"
  using sublist_appendI [of x "a @ b @ c" "[]"] by simp

lemma caught_dispatch_success:
  assumes "\<forall>w1 cmd. host E w1 cmd = Resolves"
    and "mode = S ''send'' \<or> mode = S ''steer'' \<or> mode = S ''stop-and-send''
      \<or> mode = S ''queue'' \<or> mode = S ''compact''"
  shows "\<exists>c. fst (io_catch (dispatch E m sid mode msg) (on_error E m) w) = Return ()
    \<and> filter (is_outcome_write m)
        (new_events w (snd (io_catch (dispatch E m sid mode msg) (on_error E m) w))) =
        [FsWrite (ackFile m) c]
    \<and> last (new_events w (snd (io_catch (dispatch E m sid mode msg) (on_error E m) w))) =
        FsUnlink m"
  using assms
  by (auto simp: run_mode new_events_def trace_cleanup trace_emit fst_cleanup)

lemma ack_text_facts:
  assumes "(mode = S ''send''
          \<and> c = S ''sent sessionId='' @ substring0 sessionId 8 @ S ''... at '' @ now E)
       \<or> (mode = S ''steer''
          \<and> c = S ''steered (steerWithMessage) sessionId='' @ substring0 sessionId 8
                @ S ''... at '' @ now E)
       \<or> (mode = S ''stop-and-send''
          \<and> c = S ''stop-and-send sessionId='' @ substring0 sessionId 8
                @ S ''... at '' @ now E)
       \<or> (mode = S ''queue''
          \<and> c = S ''queued (queueMessage) sessionId='' @ substring0 sessionId 8
                @ S ''... at '' @ now E)
       \<or> (mode = S ''compact''
          \<and> c = S ''compact: opened context usage panel at '' @ now E
                @ S ''. No direct compact command in VS Code '' @ EM_DASH
                @ S '' press compact in the panel.'')"
  shows "sublist (now E) c
    \<and> (mode \<noteq> S ''compact'' \<longrightarrow> sublist (substring0 sessionId 8) c)
    \<and> (mode \<noteq> S ''send'' \<longrightarrow> prefix mode c)
    \<and> (mode = S ''send'' \<longrightarrow> prefix (S ''sent'') c)"
proof -
  have ts: "sublist (now E) c"
    using assms by (auto simp: sublist_end sublist_mid)
  have sid: "sublist (substring0 sessionId 8) c" if "mode \<noteq> S ''compact''"
    using assms that by (auto simp: sublist_mid)
  have pre: "prefix mode c" if "mode \<noteq> S ''send''"
    using assms that by (auto simp: ack_prefixes)
  have sent: "prefix (S ''sent'') c" if "mode = S ''send''"
    using assms that by (auto simp: ack_prefixes mode_literals [THEN not_sym])
  show ?thesis
    using ts sid pre sent by simp
qed

text \<open>
  C9, as the handler has it. For a request with three non-empty fields:

  When the request is not blocked, its mode is one of the five and the host resolves
  every command, the run returns, the \<open>.ack\<close> file is the one outcome file it writes,
  and the unlink of the message file is its last event. The content written includes the
  timestamp; it includes the first 8 code units of the session id in every mode but
  \<open>compact\<close>; it starts with the mode name in every mode but \<open>send\<close>, where it starts
  with \<open>sent\<close>.

  Whenever a run writes the \<open>.ack\<close> file, the mode is one of the five and the content
  is the text of that mode; the text of \<open>compact\<close> does not depend on the session id.
\<close>

theorem C9_ack_content:
  assumes "readFileSync E msgFile w = (Return content, w)"
    and "split BAR (trim content) = sessionId # mode # messageParts"
    and "messageParts \<noteq> []"
    and "sessionId \<noteq> []" and "mode \<noteq> []" and "join BAR messageParts \<noteq> []"
  shows "(readContextProbe E inboxPath w = (Return pr, w)
          \<and> \<not> (\<exists>p. pr = Some p \<and> num_gt (contextPct p) 95 \<and> mode = S ''steer'')
          \<and> (mode = S ''send'' \<or> mode = S ''steer'' \<or> mode = S ''stop-and-send''
               \<or> mode = S ''queue'' \<or> mode = S ''compact'')
          \<and> (\<forall>w1 cmd. host E w1 cmd = Resolves)
        \<longrightarrow> (\<exists>c. fst (onDidCreate E inboxPath msgFile w) = Return ()
              \<and> filter (is_outcome_write msgFile)
                  (new_events w (snd (onDidCreate E inboxPath msgFile w))) =
                  [FsWrite (ackFile msgFile) c]
              \<and> last (new_events w (snd (onDidCreate E inboxPath msgFile w))) =
                  FsUnlink msgFile
              \<and> sublist (now E) c
              \<and> (mode \<noteq> S ''compact'' \<longrightarrow> sublist (substring0 sessionId 8) c)
              \<and> (mode \<noteq> S ''send'' \<longrightarrow> prefix mode c)
              \<and> (mode = S ''send'' \<longrightarrow> prefix (S ''sent'') c)))
    \<and> (\<forall>c. FsWrite (ackFile msgFile) c
            \<in> set (new_events w (snd (onDidCreate E inboxPath msgFile w))) \<longrightarrow>
          ((mode = S ''send''
            \<and> c = S ''sent sessionId='' @ substring0 sessionId 8 @ S ''... at '' @ now E)
         \<or> (mode = S ''steer''
            \<and> c = S ''steered (steerWithMessage) sessionId='' @ substring0 sessionId 8
                  @ S ''... at '' @ now E)
         \<or> (mode = S ''stop-and-send''
            \<and> c = S ''stop-and-send sessionId='' @ substring0 sessionId 8
                  @ S ''... at '' @ now E)
         \<or> (mode = S ''queue''
            \<and> c = S ''queued (queueMessage) sessionId='' @ substring0 sessionId 8
                  @ S ''... at '' @ now E)
         \<or> (mode = S ''compact''
            \<and> c = S ''compact: opened context usage panel at '' @ now E
                  @ S ''. No direct compact command in VS Code '' @ EM_DASH
                  @ S '' press compact in the panel.''))
        \<and> sublist (now E) c
        \<and> (mode \<noteq> S ''compact'' \<longrightarrow> sublist (substring0 sessionId 8) c)
        \<and> (mode \<noteq> S ''send'' \<longrightarrow> prefix mode c)
        \<and> (mode = S ''send'' \<longrightarrow> prefix (S ''sent'') c))
    \<and> substring0 sessionId 8 = take 8 sessionId"
proof -
  let ?run = "onDidCreate E inboxPath msgFile w"
  let ?go = "io_catch (dispatch E msgFile sessionId mode (join BAR messageParts))
      (on_error E msgFile)"
  have written: "\<exists>w1. FsWrite (ackFile msgFile) c \<in> set (new_events w1 (snd (?go w1)))"
    if ack: "FsWrite (ackFile msgFile) c \<in> set (new_events w (snd ?run))" for c
  proof -
    obtain pr0 where pr0: "readContextProbe E inboxPath w = (Return pr0, w)"
      using readContextProbe_result by blast
    note run = onDidCreate_valid [OF assms(1-6) pr0]
    show ?thesis
    proof (cases pr0)
      case None
      then show ?thesis
        using ack by (auto simp: run)
    next
      case (Some p)
      show ?thesis
      proof (cases "num_gt (contextPct p) 95 \<and> mode = S ''steer''")
        case True
        then show ?thesis
          using ack Some
          by (simp add: run new_events_def trace_cleanup out_files_distinct)
      next
        case False
        show ?thesis
        proof (cases "num_gt (contextPct p) 80")
          case True
          then show ?thesis
            using ack Some False
            by (auto simp: run new_events_after_warn out_files_distinct)
        next
          case nw: False
          then show ?thesis
            using ack Some False by (auto simp: run)
        qed
      qed
    qed
  qed
  have any: "((mode = S ''send''
            \<and> c = S ''sent sessionId='' @ substring0 sessionId 8 @ S ''... at '' @ now E)
         \<or> (mode = S ''steer''
            \<and> c = S ''steered (steerWithMessage) sessionId='' @ substring0 sessionId 8
                  @ S ''... at '' @ now E)
         \<or> (mode = S ''stop-and-send''
            \<and> c = S ''stop-and-send sessionId='' @ substring0 sessionId 8
                  @ S ''... at '' @ now E)
         \<or> (mode = S ''queue''
            \<and> c = S ''queued (queueMessage) sessionId='' @ substring0 sessionId 8
                  @ S ''... at '' @ now E)
         \<or> (mode = S ''compact''
            \<and> c = S ''compact: opened context usage panel at '' @ now E
                  @ S ''. No direct compact command in VS Code '' @ EM_DASH
                  @ S '' press compact in the panel.''))
        \<and> sublist (now E) c
        \<and> (mode \<noteq> S ''compact'' \<longrightarrow> sublist (substring0 sessionId 8) c)
        \<and> (mode \<noteq> S ''send'' \<longrightarrow> prefix mode c)
        \<and> (mode = S ''send'' \<longrightarrow> prefix (S ''sent'') c)"
    if ack: "FsWrite (ackFile msgFile) c \<in> set (new_events w (snd ?run))" for c
  proof -
    obtain w1 where "FsWrite (ackFile msgFile) c \<in> set (new_events w1 (snd (?go w1)))"
      using written [OF ack] by blast
    note content_of = caught_dispatch_ack [OF this]
    show ?thesis
      using content_of ack_text_facts [OF content_of] by blast
  qed
  have success: "\<exists>c. fst ?run = Return ()
        \<and> filter (is_outcome_write msgFile) (new_events w (snd ?run)) =
            [FsWrite (ackFile msgFile) c]
        \<and> last (new_events w (snd ?run)) = FsUnlink msgFile"
    if pr: "readContextProbe E inboxPath w = (Return pr, w)"
      and nb: "\<not> (\<exists>p. pr = Some p \<and> num_gt (contextPct p) 95 \<and> mode = S ''steer'')"
      and five: "mode = S ''send'' \<or> mode = S ''steer'' \<or> mode = S ''stop-and-send''
               \<or> mode = S ''queue'' \<or> mode = S ''compact''"
      and res: "\<forall>w1 cmd. host E w1 cmd = Resolves"
  proof -
    note run = onDidCreate_valid [OF assms(1-6) pr]
    note ok = caught_dispatch_success [OF res five, of msgFile sessionId "join BAR messageParts"]
    show ?thesis
    proof (cases pr)
      case None
      then show ?thesis
        using ok [of w] by (simp add: run)
    next
      case (Some p)
      show ?thesis
      proof (cases "num_gt (contextPct p) 80")
        case True
        let ?w1 = "snd (writeWarn E msgFile
          (S ''context warning: context_pct='' @ number_toString E (contextPct p)
             @ S ''% > 80% (approaching compaction zone, patch=''
             @ number_toString E (patch p) @ S '')'') w)"
        have go: "?run = ?go ?w1"
          using Some True nb by (auto simp: run)
        obtain c where c: "fst (?go ?w1) = Return ()"
          "filter (is_outcome_write msgFile) (new_events ?w1 (snd (?go ?w1))) =
            [FsWrite (ackFile msgFile) c]"
          "last (new_events ?w1 (snd (?go ?w1))) = FsUnlink msgFile"
          using ok [of ?w1] by blast
        have ne: "new_events ?w1 (snd (?go ?w1)) \<noteq> []"
          using c(2) by auto
        have "fst ?run = Return ()
          \<and> filter (is_outcome_write msgFile) (new_events w (snd ?run)) =
              [FsWrite (ackFile msgFile) c]
          \<and> last (new_events w (snd ?run)) = FsUnlink msgFile"
          unfolding go using c ne
          by (simp add: new_events_after_warn out_files_distinct)
        then show ?thesis by blast
      next
        case False
        then show ?thesis
          using ok [of w] Some nb by (auto simp: run)
      qed
    qed
  qed
  have full: "\<exists>c. fst ?run = Return ()
        \<and> filter (is_outcome_write msgFile) (new_events w (snd ?run)) =
            [FsWrite (ackFile msgFile) c]
        \<and> last (new_events w (snd ?run)) = FsUnlink msgFile
        \<and> sublist (now E) c
        \<and> (mode \<noteq> S ''compact'' \<longrightarrow> sublist (substring0 sessionId 8) c)
        \<and> (mode \<noteq> S ''send'' \<longrightarrow> prefix mode c)
        \<and> (mode = S ''send'' \<longrightarrow> prefix (S ''sent'') c)"
    if pr: "readContextProbe E inboxPath w = (Return pr, w)"
      and nb: "\<not> (\<exists>p. pr = Some p \<and> num_gt (contextPct p) 95 \<and> mode = S ''steer'')"
      and five: "mode = S ''send'' \<or> mode = S ''steer'' \<or> mode = S ''stop-and-send''
               \<or> mode = S ''queue'' \<or> mode = S ''compact''"
      and res: "\<forall>w1 cmd. host E w1 cmd = Resolves"
  proof -
    obtain c where c: "fst ?run = Return ()"
      "filter (is_outcome_write msgFile) (new_events w (snd ?run)) = [FsWrite (ackFile msgFile) c]"
      "last (new_events w (snd ?run)) = FsUnlink msgFile"
      using success [OF pr nb five res] by blast
    have "FsWrite (ackFile msgFile) c \<in> set (filter (is_outcome_write msgFile)
        (new_events w (snd ?run)))"
      by (simp add: c(2))
    then have "FsWrite (ackFile msgFile) c \<in> set (new_events w (snd ?run))"
      by simp
    from any [OF this] c show ?thesis by blast
  qed
  show ?thesis
    using full any by (simp add: substring0_def)
qed

lemma example_split_queue:
  "split BAR (trim (S ''abc|queue|hello'')) = S ''abc'' # S ''queue'' # [S ''hello'']"
  by (simp add: S_def trim_def is_space_def is_line_terminator_def BAR_def)

lemma example_nonempty_queue: "S ''queue'' \<noteq> []"
  by (simp add: S_def)

lemma quiet_run:
  assumes "split BAR (trim request) = sessionId # mode # [S ''hello'']"
    and "sessionId \<noteq> []" and "mode \<noteq> []"
  shows "onDidCreate quiet_env (S ''/in'') (S ''/in/1.msg'') (inbox_with [(S ''/in/1.msg'', request)])
    = io_catch (dispatch quiet_env (S ''/in/1.msg'') sessionId mode (S ''hello''))
        (on_error quiet_env (S ''/in/1.msg'')) (inbox_with [(S ''/in/1.msg'', request)])"
proof -
  let ?w = "inbox_with [(S ''/in/1.msg'', request)]"
  have rd: "readFileSync quiet_env (S ''/in/1.msg'') ?w = (Return request, ?w)"
    by (rule quiet_read) simp
  have np: "readContextProbe quiet_env (S ''/in'') ?w = (Return None, ?w)"
    by (rule quiet_no_probe) (simp add: example_paths, simp add: S_def)
  show ?thesis
    using onDidCreate_valid [OF rd assms(1) _ assms(2,3) example_nonempty(8) np] by simp
qed

theorem C9_ack_content_witness:
  "readFileSync quiet_env (S ''/in/1.msg'') (inbox_with [(S ''/in/1.msg'', S ''abc|queue|hello'')])
     = (Return (S ''abc|queue|hello''), inbox_with [(S ''/in/1.msg'', S ''abc|queue|hello'')])
   \<and> split BAR (trim (S ''abc|queue|hello'')) = S ''abc'' # S ''queue'' # [S ''hello'']
   \<and> [S ''hello''] \<noteq> [] \<and> S ''abc'' \<noteq> [] \<and> S ''queue'' \<noteq> [] \<and> join BAR [S ''hello''] \<noteq> []
   \<and> readContextProbe quiet_env (S ''/in'') (inbox_with [(S ''/in/1.msg'', S ''abc|queue|hello'')])
       = (Return None, inbox_with [(S ''/in/1.msg'', S ''abc|queue|hello'')])
   \<and> (\<forall>w1 cmd. host quiet_env w1 cmd = Resolves)
   \<and> (\<exists>c. fst (onDidCreate quiet_env (S ''/in'') (S ''/in/1.msg'')
              (inbox_with [(S ''/in/1.msg'', S ''abc|queue|hello'')])) = Return ()
          \<and> filter (is_outcome_write (S ''/in/1.msg''))
              (new_events (inbox_with [(S ''/in/1.msg'', S ''abc|queue|hello'')])
                (snd (onDidCreate quiet_env (S ''/in'') (S ''/in/1.msg'')
                  (inbox_with [(S ''/in/1.msg'', S ''abc|queue|hello'')])))) =
              [FsWrite (ackFile (S ''/in/1.msg'')) c]
          \<and> last (new_events (inbox_with [(S ''/in/1.msg'', S ''abc|queue|hello'')])
                (snd (onDidCreate quiet_env (S ''/in'') (S ''/in/1.msg'')
                  (inbox_with [(S ''/in/1.msg'', S ''abc|queue|hello'')])))) =
              FsUnlink (S ''/in/1.msg'')
          \<and> sublist (now quiet_env) c \<and> sublist (substring0 (S ''abc'') 8) c
          \<and> prefix (S ''queue'') c)
   \<and> FsWrite (ackFile (S ''/in/1.msg''))
         (S ''queued (queueMessage) sessionId='' @ S ''abc'' @ S ''... at ''
            @ S ''2026-02-20T13:20:38.533Z'')
       \<in> set (new_events (inbox_with [(S ''/in/1.msg'', S ''abc|queue|hello'')])
           (snd (onDidCreate quiet_env (S ''/in'') (S ''/in/1.msg'')
              (inbox_with [(S ''/in/1.msg'', S ''abc|queue|hello'')]))))
   \<and> sublist (S ''2026-02-20T13:20:38.533Z'')
        (S ''queued (queueMessage) sessionId='' @ S ''abc'' @ S ''... at ''
            @ S ''2026-02-20T13:20:38.533Z'')
   \<and> sublist (S ''abc'')
        (S ''queued (queueMessage) sessionId='' @ S ''abc'' @ S ''... at ''
            @ S ''2026-02-20T13:20:38.533Z'')
   \<and> prefix (S ''queue'')
        (S ''queued (queueMessage) sessionId='' @ S ''abc'' @ S ''... at ''
            @ S ''2026-02-20T13:20:38.533Z'')"
proof -
  let ?w = "inbox_with [(S ''/in/1.msg'', S ''abc|queue|hello'')]"
  let ?c = "S ''queued (queueMessage) sessionId='' @ S ''abc'' @ S ''... at ''
            @ S ''2026-02-20T13:20:38.533Z''"
  have rd: "readFileSync quiet_env (S ''/in/1.msg'') ?w = (Return (S ''abc|queue|hello''), ?w)"
    by (rule quiet_read) simp
  have np: "readContextProbe quiet_env (S ''/in'') ?w = (Return None, ?w)"
    by (rule quiet_no_probe) (simp add: example_paths, simp add: S_def)
  have tr: "trace (snd (onDidCreate quiet_env (S ''/in'') (S ''/in/1.msg'') ?w)) =
      [Exec (ChatOpen (S ''hello'') True), Delay 100, Exec ChatQueueMessage,
       FsWrite (ackFile (S ''/in/1.msg'')) ?c, FsUnlink (S ''/in/1.msg'')]"
    by (simp add: quiet_run [OF example_split_queue example_nonempty(1) example_nonempty_queue]
        run_queue host_quiet now_quiet trace_cleanup trace_emit trace_inbox_with
        example_substring)
  have ack: "FsWrite (ackFile (S ''/in/1.msg'')) ?c
      \<in> set (new_events ?w (snd (onDidCreate quiet_env (S ''/in'') (S ''/in/1.msg'') ?w)))"
    by (simp add: new_events_inbox tr)
  have q: "S ''queue'' \<noteq> S ''compact''" "S ''queue'' \<noteq> S ''send''"
    using mode_literals by simp_all
  note inst = C9_ack_content [OF rd example_split_queue _ example_nonempty(1)
      example_nonempty_queue example_nonempty(8), of "S ''/in''" None]
  have ok: "\<exists>c. fst (onDidCreate quiet_env (S ''/in'') (S ''/in/1.msg'') ?w) = Return ()
      \<and> filter (is_outcome_write (S ''/in/1.msg''))
          (new_events ?w (snd (onDidCreate quiet_env (S ''/in'') (S ''/in/1.msg'') ?w))) =
          [FsWrite (ackFile (S ''/in/1.msg'')) c]
      \<and> last (new_events ?w (snd (onDidCreate quiet_env (S ''/in'') (S ''/in/1.msg'') ?w))) =
          FsUnlink (S ''/in/1.msg'')
      \<and> sublist (now quiet_env) c \<and> sublist (substring0 (S ''abc'') 8) c
      \<and> prefix (S ''queue'') c"
    using inst np host_quiet q by blast
  have facts: "sublist (now quiet_env) ?c \<and> sublist (substring0 (S ''abc'') 8) ?c
      \<and> prefix (S ''queue'') ?c"
    using inst ack q by blast
  show ?thesis
    using ok facts rd np ack example_split_queue example_nonempty example_nonempty_queue
    by (simp add: example_substring now_quiet host_quiet)
qed

theorem C9_ack_content_counterexample:
  "fst (onDidCreate quiet_env (S ''/in'') (S ''/in/1.msg'')
        (inbox_with [(S ''/in/1.msg'', S ''ZZZZZZZZZZ|compact|hello'')])) = Return ()
   \<and> trace (snd (onDidCreate quiet_env (S ''/in'') (S ''/in/1.msg'')
        (inbox_with [(S ''/in/1.msg'', S ''ZZZZZZZZZZ|compact|hello'')]))) =
       [Exec ChatShowContextUsage,
        FsWrite (S ''/in/1.ack'')
          (S ''compact: opened context usage panel at 2026-02-20T13:20:38.533Z. No direct compact command in VS Code ''
             @ EM_DASH @ S '' press compact in the panel.''),
        FsUnlink (S ''/in/1.msg'')]
   \<and> substring0 (S ''ZZZZZZZZZZ'') 8 = S ''ZZZZZZZZ''
   \<and> \<not> sublist (S ''ZZZZZZZZ'')
        (S ''compact: opened context usage panel at 2026-02-20T13:20:38.533Z. No direct compact command in VS Code ''
           @ EM_DASH @ S '' press compact in the panel.'')
   \<and> fst (onDidCreate quiet_env (S ''/in'') (S ''/in/1.msg'')
        (inbox_with [(S ''/in/1.msg'', S ''abc|send|hello'')])) = Return ()
   \<and> trace (snd (onDidCreate quiet_env (S ''/in'') (S ''/in/1.msg'')
        (inbox_with [(S ''/in/1.msg'', S ''abc|send|hello'')]))) =
       [Exec (ChatOpen (S ''hello'') False),
        FsWrite (S ''/in/1.ack'') (S ''sent sessionId=abc... at 2026-02-20T13:20:38.533Z''),
        FsUnlink (S ''/in/1.msg'')]
   \<and> \<not> sublist (S ''send'') (S ''sent sessionId=abc... at 2026-02-20T13:20:38.533Z'')"
proof -
  let ?w = "inbox_with [(S ''/in/1.msg'', S ''ZZZZZZZZZZ|compact|hello'')]"
  let ?v = "inbox_with [(S ''/in/1.msg'', S ''abc|send|hello'')]"
  have run1: "onDidCreate quiet_env (S ''/in'') (S ''/in/1.msg'') ?w =
      cleanup quiet_env (S ''/in/1.msg'') (S ''/in/1.ack'')
        (S ''compact: opened context usage panel at '' @ S ''2026-02-20T13:20:38.533Z''
           @ S ''. No direct compact command in VS Code '' @ EM_DASH
           @ S '' press compact in the panel.'')
        (emit (Exec ChatShowContextUsage) ?w)"
    by (simp add: quiet_run [OF example_split_mode(5) example_nonempty(7) example_nonempty(6)]
        run_compact host_quiet now_quiet example_paths)
  have run2: "onDidCreate quiet_env (S ''/in'') (S ''/in/1.msg'') ?v =
      cleanup quiet_env (S ''/in/1.msg'') (S ''/in/1.ack'')
        (S ''sent sessionId='' @ S ''abc'' @ S ''... at '' @ S ''2026-02-20T13:20:38.533Z'')
        (emit (Exec (ChatOpen (S ''hello'') False)) ?v)"
    by (simp add: quiet_run [OF example_split_mode(2) example_nonempty(1) example_nonempty(3)]
        run_send host_quiet now_quiet example_paths example_substring)
  have t1: "S ''compact: opened context usage panel at '' @ S ''2026-02-20T13:20:38.533Z''
           @ S ''. No direct compact command in VS Code '' @ EM_DASH
           @ S '' press compact in the panel.'' =
      S ''compact: opened context usage panel at 2026-02-20T13:20:38.533Z. No direct compact command in VS Code ''
           @ EM_DASH @ S '' press compact in the panel.''"
    by (simp add: S_def)
  have t2: "S ''sent sessionId='' @ S ''abc'' @ S ''... at '' @ S ''2026-02-20T13:20:38.533Z'' =
      S ''sent sessionId=abc... at 2026-02-20T13:20:38.533Z''"
    by (simp add: S_def)
  have n1: "\<not> sublist (S ''ZZZZZZZZ'')
        (S ''compact: opened context usage panel at 2026-02-20T13:20:38.533Z. No direct compact command in VS Code ''
           @ EM_DASH @ S '' press compact in the panel.'')"
    by (simp add: S_def EM_DASH_def sublist_code(3))
  have n2: "\<not> sublist (S ''send'') (S ''sent sessionId=abc... at 2026-02-20T13:20:38.533Z'')"
    by (simp add: S_def sublist_code(3))
  show ?thesis
    using n1 n2
    by (simp add: run1 run2 t1 t2 fst_cleanup trace_cleanup trace_emit trace_inbox_with
        example_substring)
qed


end
